theory Spec2Isabelle
  imports Main "HOL-Library.Char_ord" "HOL-Library.List_Lexorder"
begin

section \<open>Rows of the persistent store\<close>

text \<open>
  The route handlers keep no state of their own: every request reads and writes the
  tables \<open>reservations\<close>, \<open>tables\<close>, \<open>restaurants\<close> and \<open>waitlist\<close> of the
  database. A table is modelled as the list of its rows, in the order the database
  returns them. Identifiers, dates, times and statuses are strings, as in the
  handlers, and two times or dates are the same when their strings are. Columns that
  no modelled decision reads (QR code, timestamps, deposit amount, payment intent) are
  left out of the rows. Every query sees every row: row-level security of the
  database is not modelled. The collaborators a handler calls after its writes
  (e-mail, refund, review request) do not touch the store and are left out.
\<close>

record reservation =
  r_id :: string
  r_restaurant_id :: string
  r_user_id :: string
  r_table_id :: string
  r_date :: string
  r_time :: string
  r_end_time :: "string option"
  r_guest_count :: int
  r_occasion :: "string option"
  r_special_request :: "string option"
  r_status :: string
  r_deposit_paid :: bool
  r_source :: "string option"
  r_internal_notes :: "string option"

record table_row =
  tb_id :: string
  tb_restaurant_id :: string
  tb_number :: int
  tb_capacity :: int
  tb_is_active :: bool
  tb_status :: string

record holiday =
  h_date :: string
  h_closed :: bool

record restaurant =
  rs_id :: string
  rs_holidays :: "holiday list"

record waitlist_entry =
  w_id :: string
  w_restaurant_id :: string
  w_user_id :: "string option"
  w_name :: string
  w_phone :: string
  w_email :: "string option"
  w_party_size :: int
  w_preferred_zone :: "string option"
  w_notes :: "string option"
  w_status :: string
  w_position :: "int option"
  w_estimated_wait :: int

record store =
  reservations :: "reservation list"
  tables :: "table_row list"
  restaurants :: "restaurant list"
  waitlist :: "waitlist_entry list"

text \<open>The authenticated caller, as the auth middleware leaves it in \<open>req.user\<close>.\<close>

record user =
  u_id :: string
  u_role :: string
  u_restaurantId :: "string option"

section \<open>JavaScript and query-builder primitives\<close>

text \<open>
  \<open>!x\<close> on a request field: a missing field (\<open>undefined\<close>, \<open>null\<close>) and the empty
  string are falsy; so is the number 0.
\<close>

definition truthy_str :: "string option \<Rightarrow> bool" where
  "truthy_str x = (case x of None \<Rightarrow> False | Some s \<Rightarrow> s \<noteq> [])"

definition truthy_num :: "int option \<Rightarrow> bool" where
  "truthy_num x = (case x of None \<Rightarrow> False | Some n \<Rightarrow> n \<noteq> 0)"

text \<open>
  \<open>.single()\<close> of the query builder hands back the row when the query matches exactly
  one row; with no row, and with more than one, \<open>data\<close> is \<open>null\<close>.
\<close>

definition single :: "'a list \<Rightarrow> 'a option" where
  "single rows = (case rows of [x] \<Rightarrow> Some x | _ \<Rightarrow> None)"

text \<open>\<open>.update({status}).eq('id', id)\<close> on \<open>tables\<close>.\<close>

definition set_table_status :: "string \<Rightarrow> string \<Rightarrow> store \<Rightarrow> store" where
  "set_table_status tid st s =
     s\<lparr>tables := map (\<lambda>t. if tb_id t = tid then t\<lparr>tb_status := st\<rparr> else t) (tables s)\<rparr>"

text \<open>\<open>.update(f).eq('id', id)\<close> on \<open>reservations\<close>.\<close>

definition update_reservation :: "string \<Rightarrow> (reservation \<Rightarrow> reservation) \<Rightarrow> store \<Rightarrow> store" where
  "update_reservation rid f s =
     s\<lparr>reservations := map (\<lambda>r. if r_id r = rid then f r else r) (reservations s)\<rparr>"

section \<open>Error responses\<close>

text \<open>
  One constructor for each failing response of the modelled handlers; \<open>http_status\<close>
  is the status code the handler sends with it. \<open>StoreError\<close> stands for the
  responses sent when the database rejects a write (the \<open>if (error)\<close> branches and
  the \<open>catch\<close> blocks).
\<close>

datatype error =
    MissingRequiredFields
  | TableAlreadyReserved
  | InvalidStatus
  | ReservationNotFound
  | WrongRestaurantContext
  | NoPermissionToCancel
  | CannotBeCancelled
  | UpdateFieldRequired
  | UnauthorizedToModify
  | ClosedOnHoliday
  | OverCapacity int
  | NewSlotAlreadyReserved
  | DateTimeGuestsRequired
  | GuestCountRequired
  | TableNotFound
  | NotAvailableForWalkIn
  | NotEnoughTimeForWalkIn
  | WaitlistFieldsRequired
  | RestaurantNotFound
  | AlreadyInWaitlist
  | StoreError

fun http_status :: "error \<Rightarrow> nat" where
  "http_status MissingRequiredFields = 400"
| "http_status TableAlreadyReserved = 409"
| "http_status InvalidStatus = 400"
| "http_status ReservationNotFound = 404"
| "http_status WrongRestaurantContext = 403"
| "http_status NoPermissionToCancel = 403"
| "http_status CannotBeCancelled = 400"
| "http_status UpdateFieldRequired = 400"
| "http_status UnauthorizedToModify = 403"
| "http_status ClosedOnHoliday = 400"
| "http_status (OverCapacity c) = 400"
| "http_status NewSlotAlreadyReserved = 409"
| "http_status DateTimeGuestsRequired = 400"
| "http_status GuestCountRequired = 400"
| "http_status TableNotFound = 404"
| "http_status NotAvailableForWalkIn = 409"
| "http_status NotEnoughTimeForWalkIn = 409"
| "http_status WaitlistFieldsRequired = 400"
| "http_status RestaurantNotFound = 404"
| "http_status AlreadyInWaitlist = 400"
| "http_status StoreError = 500"

section \<open>Reservation lifecycle routes\<close>

subsection \<open>PATCH /api/reservations/:id/status\<close>

definition validStatuses :: "string list" where
  "validStatuses = [''pending'', ''confirmed'', ''arrived'', ''completed'', ''cancelled'', ''no_show'']"

text \<open>The \<open>switch\<close> that picks the table's new physical status; \<open>None\<close> leaves it.\<close>

definition tableStatus_for :: "string \<Rightarrow> string option" where
  "tableStatus_for status =
     (if status = ''confirmed'' then Some ''occupied''
      else if status = ''arrived'' then Some ''occupied''
      else if status = ''completed'' \<or> status = ''cancelled'' \<or> status = ''no_show''
        then Some ''available''
      else None)"

text \<open>
  Arguments: the caller, the \<open>:id\<close> parameter, the \<open>status\<close> field of the body, whether
  the database rejects the update, and the store. The result is the response and the
  store afterwards.
\<close>

definition patch_status ::
  "user \<Rightarrow> string \<Rightarrow> string option \<Rightarrow> bool \<Rightarrow> store \<Rightarrow> (error + reservation) \<times> store" where
  "patch_status u rid body_status write_fails s =
     (case body_status of
        None \<Rightarrow> (Inl InvalidStatus, s)
      | Some status \<Rightarrow>
          if status = [] \<or> status \<notin> set validStatuses then (Inl InvalidStatus, s)
          else
            (case single (filter (\<lambda>r. r_id r = rid) (reservations s)) of
               None \<Rightarrow> (Inl ReservationNotFound, s)
             | Some reservation \<Rightarrow>
                 if u_role u = ''restaurant_admin''
                    \<and> Some (r_restaurant_id reservation) \<noteq> u_restaurantId u
                 then (Inl WrongRestaurantContext, s)
                 else if write_fails then (Inl StoreError, s)
                 else
                   (let s1 = update_reservation rid (\<lambda>r. r\<lparr>r_status := status\<rparr>) s;
                        s2 = (case tableStatus_for status of
                                None \<Rightarrow> s1
                              | Some ts \<Rightarrow> set_table_status (r_table_id reservation) ts s1)
                    in (Inr (reservation\<lparr>r_status := status\<rparr>), s2))))"

subsection \<open>POST /api/reservations/:id/cancel\<close>

text \<open>The text written into \<open>special_request\<close>: \<open>[Cancelled: ${reason || 'No reason provided'}]\<close>.\<close>

definition cancelled_note :: "string option \<Rightarrow> string" where
  "cancelled_note reason =
     ''[Cancelled: ''
       @ (case reason of
            None \<Rightarrow> ''No reason provided''
          | Some t \<Rightarrow> if t = [] then ''No reason provided'' else t)
       @ '']''"

definition cancelled_special_request :: "string option \<Rightarrow> string option \<Rightarrow> string" where
  "cancelled_special_request old reason =
     (case old of
        None \<Rightarrow> cancelled_note reason
      | Some sr \<Rightarrow>
          if sr = [] then cancelled_note reason
          else sr @ [CHR 0x0A, CHR 0x0A] @ cancelled_note reason)"

definition cancel ::
  "user \<Rightarrow> string \<Rightarrow> string option \<Rightarrow> bool \<Rightarrow> store \<Rightarrow> (error + unit) \<times> store" where
  "cancel u rid reason write_fails s =
     (case single (filter (\<lambda>r. r_id r = rid) (reservations s)) of
        None \<Rightarrow> (Inl ReservationNotFound, s)
      | Some reservation \<Rightarrow>
          if r_user_id reservation \<noteq> u_id u
             \<and> u_role u \<noteq> ''restaurant_admin'' \<and> u_role u \<noteq> ''super_admin''
          then (Inl NoPermissionToCancel, s)
          else if u_role u = ''restaurant_admin''
                  \<and> Some (r_restaurant_id reservation) \<noteq> u_restaurantId u
          then (Inl WrongRestaurantContext, s)
          else if r_status reservation \<in> set [''completed'', ''cancelled'', ''no_show'']
          then (Inl CannotBeCancelled, s)
          else if write_fails then (Inl StoreError, s)
          else
            (let s1 = update_reservation rid
                        (\<lambda>r. r\<lparr>r_status := ''cancelled'',
                               r_special_request :=
                                 Some (cancelled_special_request (r_special_request reservation) reason)\<rparr>) s;
                 s2 = set_table_status (r_table_id reservation) ''available'' s1
             in (Inr (), s2)))"

subsection \<open>POST /api/reservations\<close>

record create_body =
  cb_restaurantId :: "string option"
  cb_tableId :: "string option"
  cb_date :: "string option"
  cb_time :: "string option"
  cb_guestCount :: "int option"
  cb_occasion :: "string option"
  cb_specialRequest :: "string option"
  cb_depositPaid :: bool

text \<open>\<open>x ? String(x) : null\<close> on an optional text field.\<close>

definition text_or_null :: "string option \<Rightarrow> string option" where
  "text_or_null x = (if truthy_str x then x else None)"

text \<open>
  The rows the conflict query of Create selects: same table, date and time, status
  not in \<open>("cancelled","no_show")\<close>.
\<close>

definition slot_rows :: "string \<Rightarrow> string \<Rightarrow> string \<Rightarrow> store \<Rightarrow> reservation list" where
  "slot_rows tid d t s =
     filter (\<lambda>r. r_table_id r = tid \<and> r_date r = d \<and> r_time r = t
                 \<and> r_status r \<notin> set [''cancelled'', ''no_show''])
            (reservations s)"

text \<open>
  Arguments: the caller, the body, the id the database gives the new row, whether the
  database rejects the insert, and the store. The columns the insert does not set
  (\<open>end_time\<close>, \<open>source\<close>, \<open>internal_notes\<close>) are \<open>None\<close>.
\<close>

definition create ::
  "user \<Rightarrow> create_body \<Rightarrow> string \<Rightarrow> bool \<Rightarrow> store \<Rightarrow> (error + reservation) \<times> store" where
  "create u b new_id write_fails s =
     (if \<not> truthy_str (cb_restaurantId b) \<or> \<not> truthy_str (cb_tableId b)
         \<or> \<not> truthy_str (cb_date b) \<or> \<not> truthy_str (cb_time b)
         \<or> \<not> truthy_num (cb_guestCount b)
      then (Inl MissingRequiredFields, s)
      else
        (case (cb_restaurantId b, cb_tableId b, cb_date b, cb_time b, cb_guestCount b) of
           (Some restaurantId, Some tableId, Some date, Some time, Some guestCount) \<Rightarrow>
             (case single (slot_rows tableId date time s) of
                Some existingReservation \<Rightarrow> (Inl TableAlreadyReserved, s)
              | None \<Rightarrow>
                  if write_fails then (Inl StoreError, s)
                  else
                    (let reservation =
                           \<lparr>r_id = new_id,
                            r_restaurant_id = restaurantId,
                            r_user_id = u_id u,
                            r_table_id = tableId,
                            r_date = date,
                            r_time = time,
                            r_end_time = None,
                            r_guest_count = guestCount,
                            r_occasion = text_or_null (cb_occasion b),
                            r_special_request = text_or_null (cb_specialRequest b),
                            r_status = (if cb_depositPaid b then ''confirmed'' else ''pending''),
                            r_deposit_paid = cb_depositPaid b,
                            r_source = None,
                            r_internal_notes = None\<rparr>;
                         s1 = s\<lparr>reservations := reservations s @ [reservation]\<rparr>;
                         s2 = set_table_status tableId ''pending'' s1
                     in (Inr reservation, s2)))
         | _ \<Rightarrow> (Inl MissingRequiredFields, s)))"

subsection \<open>PATCH /api/reservations/:id (reschedule)\<close>

record reschedule_body =
  rb_date :: "string option"
  rb_time :: "string option"
  rb_guestCount :: "int option"

text \<open>\<open>x || y\<close> on an optional text field with a row value as fallback.\<close>

definition str_or :: "string option \<Rightarrow> string \<Rightarrow> string" where
  "str_or x y = (case x of None \<Rightarrow> y | Some v \<Rightarrow> if v = [] then y else v)"

definition num_or :: "int option \<Rightarrow> int \<Rightarrow> int" where
  "num_or x y = (case x of None \<Rightarrow> y | Some v \<Rightarrow> if v = 0 then y else v)"

text \<open>\<open>holidays.some(h => h.date === finalDate && h.closed)\<close> on the restaurant's holidays.\<close>

definition isHoliday :: "string \<Rightarrow> string \<Rightarrow> store \<Rightarrow> bool" where
  "isHoliday restaurantId finalDate s =
     (case single (filter (\<lambda>x. rs_id x = restaurantId) (restaurants s)) of
        None \<Rightarrow> False
      | Some restaurant \<Rightarrow> list_ex (\<lambda>h. h_date h = finalDate \<and> h_closed h) (rs_holidays restaurant))"

text \<open>The capacity check: \<open>Some c\<close> when the table is found and the party exceeds its capacity \<open>c\<close>.\<close>

definition exceeds_capacity :: "string \<Rightarrow> int \<Rightarrow> store \<Rightarrow> int option" where
  "exceeds_capacity tid finalGuestCount s =
     (case single (filter (\<lambda>t. tb_id t = tid) (tables s)) of
        None \<Rightarrow> None
      | Some tbl \<Rightarrow> if finalGuestCount > tb_capacity tbl then Some (tb_capacity tbl) else None)"

text \<open>The conflict query of reschedule: as for Create, with \<open>.neq('id', id)\<close>.\<close>

definition slot_rows_excluding ::
  "string \<Rightarrow> string \<Rightarrow> string \<Rightarrow> string \<Rightarrow> store \<Rightarrow> reservation list" where
  "slot_rows_excluding tid d t rid s =
     filter (\<lambda>r. r_table_id r = tid \<and> r_date r = d \<and> r_time r = t \<and> r_id r \<noteq> rid
                 \<and> r_status r \<notin> set [''cancelled'', ''no_show''])
            (reservations s)"

definition reschedule ::
  "user \<Rightarrow> string \<Rightarrow> reschedule_body \<Rightarrow> bool \<Rightarrow> store \<Rightarrow> (error + reservation) \<times> store" where
  "reschedule u rid b write_fails s =
     (if \<not> truthy_str (rb_date b) \<and> \<not> truthy_str (rb_time b) \<and> \<not> truthy_num (rb_guestCount b)
      then (Inl UpdateFieldRequired, s)
      else
        (case single (filter (\<lambda>r. r_id r = rid) (reservations s)) of
           None \<Rightarrow> (Inl ReservationNotFound, s)
         | Some reservation \<Rightarrow>
             if r_user_id reservation \<noteq> u_id u \<and> u_role u \<noteq> ''super_admin''
             then (Inl UnauthorizedToModify, s)
             else
               (let finalGuestCount = num_or (rb_guestCount b) (r_guest_count reservation);
                    finalDate = str_or (rb_date b) (r_date reservation);
                    finalTime = str_or (rb_time b) (r_time reservation)
                in
                  if truthy_str (rb_date b) \<and> isHoliday (r_restaurant_id reservation) finalDate s
                  then (Inl ClosedOnHoliday, s)
                  else
                    (case (if truthy_num (rb_guestCount b)
                           then exceeds_capacity (r_table_id reservation) finalGuestCount s
                           else None) of
                       Some capacity \<Rightarrow> (Inl (OverCapacity capacity), s)
                     | None \<Rightarrow>
                         if (truthy_str (rb_date b) \<or> truthy_str (rb_time b))
                            \<and> single (slot_rows_excluding (r_table_id reservation)
                                        finalDate finalTime rid s) \<noteq> None
                         then (Inl NewSlotAlreadyReserved, s)
                         else if write_fails then (Inl StoreError, s)
                         else
                           (let f = (\<lambda>r. r\<lparr>r_date := finalDate, r_time := finalTime,
                                              r_guest_count := finalGuestCount\<rparr>)
                            in (Inr (f reservation), update_reservation rid f s))))))"

section \<open>Availability: GET /api/restaurants/:id/tables/available\<close>

text \<open>
  Arguments: the \<open>:id\<close> parameter, then the query parameters \<open>date\<close>, \<open>time\<close> and
  \<open>guests\<close>. \<open>guests\<close> is given as the integer \<open>parseInt\<close> reads from it, \<open>None\<close> when
  the parameter is missing or empty (any other text, also \<open>0\<close>, is truthy). The
  status filter \<open>("cancelled", "no_show")\<close> is read as leaving out both statuses, like
  the filter of Create.
\<close>

definition available_tables ::
  "string \<Rightarrow> string option \<Rightarrow> string option \<Rightarrow> int option \<Rightarrow> store \<Rightarrow> error + table_row list" where
  "available_tables rid date time guests s =
     (case (date, time, guests) of
        (Some reservationDate, Some reservationTime, Some guestCount) \<Rightarrow>
          if reservationDate = [] \<or> reservationTime = [] then Inl DateTimeGuestsRequired
          else
            (let tbls = filter (\<lambda>t. tb_restaurant_id t = rid \<and> tb_capacity t \<ge> guestCount
                                      \<and> tb_is_active t) (tables s);
                 rsv = filter (\<lambda>r. r_restaurant_id r = rid \<and> r_date r = reservationDate
                                     \<and> r_time r = reservationTime
                                     \<and> r_status r \<notin> set [''cancelled'', ''no_show''])
                              (reservations s);
                 reservedTableIds = map r_table_id rsv;
                 availableTables = filter (\<lambda>t. tb_id t \<notin> set reservedTableIds) tbls
             in Inr availableTables)
      | _ \<Rightarrow> Inl DateTimeGuestsRequired)"

section \<open>Table status service\<close>

datatype TableLogicalStatus = FREE | RESERVED | OCCUPIED | NEXT_RESERVATION | OUT_OF_SERVICE

subsection \<open>JavaScript numbers read from a time string\<close>

text \<open>
  \<open>calculateRemainingMinutes\<close> reads \<open>HH:mm:ss\<close> strings with
  \<open>split(':').map(Number)\<close>. A field that is not a number gives \<open>NaN\<close>, a missing
  field gives \<open>undefined\<close>; both make every sum they enter \<open>NaN\<close>, and every
  comparison with \<open>NaN\<close> is false. \<open>Number_js\<close> reads a string of decimal digits
  (the empty string is 0); the other spellings \<open>Number\<close> accepts (blanks, sign,
  fraction, exponent, radix prefix) do not occur in a time of day and are read as
  \<open>NaN\<close> here.
\<close>

datatype jsnum = Num int | NaN

definition is_digit :: "char \<Rightarrow> bool" where
  "is_digit c = (CHR ''0'' \<le> c \<and> c \<le> CHR ''9'')"

definition Number_js :: "string \<Rightarrow> jsnum" where
  "Number_js str =
     (if list_all is_digit str
      then Num (foldl (\<lambda>a c. 10 * a + (of_char c - 48)) 0 str)
      else NaN)"

fun js_split :: "char \<Rightarrow> string \<Rightarrow> string list" where
  "js_split sep [] = [[]]"
| "js_split sep (c # cs) =
     (if c = sep then [] # js_split sep cs
      else (case js_split sep cs of
              [] \<Rightarrow> [[c]]
            | p # ps \<Rightarrow> (c # p) # ps))"

text \<open>\<open>parts[i]\<close> inside an arithmetic expression: \<open>undefined\<close> behaves as \<open>NaN\<close>.\<close>

definition part :: "jsnum list \<Rightarrow> nat \<Rightarrow> jsnum" where
  "part parts i = (if i < length parts then parts ! i else NaN)"

fun js_add :: "jsnum \<Rightarrow> jsnum \<Rightarrow> jsnum" where
  "js_add (Num a) (Num b) = Num (a + b)"
| "js_add _ _ = NaN"

fun js_sub :: "jsnum \<Rightarrow> jsnum \<Rightarrow> jsnum" where
  "js_sub (Num a) (Num b) = Num (a - b)"
| "js_sub _ _ = NaN"

fun js_mul :: "jsnum \<Rightarrow> jsnum \<Rightarrow> jsnum" where
  "js_mul (Num a) (Num b) = Num (a * b)"
| "js_mul _ _ = NaN"

fun js_lt :: "jsnum \<Rightarrow> int \<Rightarrow> bool" where
  "js_lt (Num a) b = (a < b)"
| "js_lt NaN b = False"

fun js_le :: "jsnum \<Rightarrow> int \<Rightarrow> bool" where
  "js_le (Num a) b = (a \<le> b)"
| "js_le NaN b = False"

text \<open>\<open>parts[0] * 60 + parts[1]\<close>.\<close>

definition to_minutes :: "jsnum list \<Rightarrow> jsnum" where
  "to_minutes parts = js_add (js_mul (part parts 0) (Num 60)) (part parts 1)"

definition calculateRemainingMinutes :: "string \<Rightarrow> string \<Rightarrow> jsnum" where
  "calculateRemainingMinutes startTime endTime =
     (let startParts = map Number_js (js_split (CHR '':'') startTime);
          endParts = map Number_js (js_split (CHR '':'') endTime);
          startMinutes = to_minutes startParts;
          endMinutes = to_minutes endParts;
          diff = js_sub endMinutes startMinutes
      in if js_lt diff 0 then js_add diff (Num 1440) else diff)"

subsection \<open>getRestaurantStatusReport\<close>

record TableStatusReport =
  tableId :: string
  number :: int
  logicalStatus :: TableLogicalStatus
  currentReservation :: "reservation option"
  nextReservation :: "reservation option"
  remainingTimeMinutes :: "jsnum option"

text \<open>
  The two predicates given to \<open>find\<close>. Times are compared as strings, by code unit,
  which is the order of \<^typ>\<open>string\<close>.
\<close>

definition is_current :: "string \<Rightarrow> reservation \<Rightarrow> bool" where
  "is_current currentTimeString r =
     ((r_status r = ''arrived'' \<or> r_status r = ''seated'')
      \<or> (r_time r \<le> currentTimeString
          \<and> (case r_end_time r of
                None \<Rightarrow> True
              | Some e \<Rightarrow> e = [] \<or> e > currentTimeString)
          \<and> r_status r = ''confirmed''))"

definition is_next :: "string \<Rightarrow> reservation \<Rightarrow> bool" where
  "is_next currentTimeString r =
     (r_time r > currentTimeString \<and> r_status r \<in> set [''pending'', ''confirmed''])"

text \<open>
  The body of \<open>tables.map\<close>: the report of one table from today's reservations of the
  restaurant. \<open>sort\<close> with \<open>localeCompare\<close> is stable and, on \<open>HH:mm:ss\<close> strings,
  orders as the code units do; \<open>sort_key\<close> is that stable sort.
\<close>

definition table_report :: "table_row \<Rightarrow> reservation list \<Rightarrow> string \<Rightarrow> TableStatusReport" where
  "table_report tbl rsv currentTimeString =
     (let tableReservations = sort_key r_time (filter (\<lambda>r. r_table_id r = tb_id tbl) rsv);
          currentRes = find (is_current currentTimeString) tableReservations;
          nextRes = find (is_next currentTimeString) tableReservations;
          (status, remaining) =
            (if tb_status tbl = ''blocked'' \<or> tb_status tbl = ''disabled''
             then (OUT_OF_SERVICE, None)
             else
               (case currentRes of
                  Some c \<Rightarrow>
                    (OCCUPIED,
                     (case r_end_time c of
                        None \<Rightarrow> None
                      | Some e \<Rightarrow>
                          if e = [] then None
                          else Some (calculateRemainingMinutes currentTimeString e)))
                | None \<Rightarrow>
                    (case nextRes of
                       Some n \<Rightarrow>
                         (let minutesUntilNext =
                                calculateRemainingMinutes currentTimeString (r_time n)
                          in ((if js_le minutesUntilNext 30 then RESERVED
                               else if js_le minutesUntilNext 90 then NEXT_RESERVATION
                               else FREE),
                              Some minutesUntilNext))
                     | None \<Rightarrow> (FREE, None))))
      in \<lparr>tableId = tb_id tbl,
          number = tb_number tbl,
          logicalStatus = status,
          currentReservation = currentRes,
          nextReservation = nextRes,
          remainingTimeMinutes = remaining\<rparr>)"

text \<open>
  Arguments: the restaurant, today's date and the current time of day as the clock
  gives them (\<open>toISOString().split('T')[0]\<close> and \<open>toTimeString().split(' ')[0]\<close>),
  and the store.
\<close>

definition getRestaurantStatusReport ::
  "string \<Rightarrow> string \<Rightarrow> string \<Rightarrow> store \<Rightarrow> TableStatusReport list" where
  "getRestaurantStatusReport restaurantId today currentTimeString s =
     (let tbls = sort_key tb_number
                   (filter (\<lambda>t. tb_restaurant_id t = restaurantId \<and> tb_is_active t) (tables s));
          rsv = filter (\<lambda>r. r_restaurant_id r = restaurantId \<and> r_date r = today
                              \<and> r_status r \<notin> set [''cancelled'', ''no_show''])
                       (reservations s)
      in map (\<lambda>tbl. table_report tbl rsv currentTimeString) tbls)"

section \<open>Walk-in: POST /api/admin/mesas/:id/walk-in\<close>

text \<open>\<open>remainingTimeMinutes || 0\<close>: \<open>undefined\<close>, \<open>NaN\<close> and 0 all give 0.\<close>

definition or_zero :: "jsnum option \<Rightarrow> int" where
  "or_zero x = (case x of None \<Rightarrow> 0 | Some NaN \<Rightarrow> 0 | Some (Num n) \<Rightarrow> n)"

definition walk_in_notes :: "string option \<Rightarrow> string option \<Rightarrow> string" where
  "walk_in_notes name phone =
     ''Walk-in registrado para: '' @ str_or name ''Sin nombre''
       @ '' ('' @ str_or phone ''Sin tel'' @ '')''"

text \<open>
  Arguments: \<open>req.user.restaurantId\<close> and \<open>req.user.id\<close> of the admin, the \<open>:id\<close>
  parameter, the body fields \<open>guestCount\<close>, \<open>name\<close>, \<open>phone\<close>, the clock's date, time
  of day and time of day 90 minutes later, the id the database gives the new row,
  whether the database rejects the insert, and the store.
\<close>

definition walk_in ::
  "string \<Rightarrow> string \<Rightarrow> string \<Rightarrow> int option \<Rightarrow> string option \<Rightarrow> string option
     \<Rightarrow> string \<Rightarrow> string \<Rightarrow> string \<Rightarrow> string \<Rightarrow> bool \<Rightarrow> store
     \<Rightarrow> (error + reservation) \<times> store" where
  "walk_in restaurantId userId tid guestCount name phone today currentTime endTime
           new_id write_fails s =
     (case guestCount of
        None \<Rightarrow> (Inl GuestCountRequired, s)
      | Some g \<Rightarrow>
          if g = 0 then (Inl GuestCountRequired, s)
          else
            (case find (\<lambda>t. tableId t = tid)
                       (getRestaurantStatusReport restaurantId today currentTime s) of
               None \<Rightarrow> (Inl TableNotFound, s)
             | Some tableStatus \<Rightarrow>
                 if logicalStatus tableStatus \<noteq> FREE
                    \<and> logicalStatus tableStatus \<noteq> NEXT_RESERVATION
                 then (Inl NotAvailableForWalkIn, s)
                 else if nextReservation tableStatus \<noteq> None
                         \<and> or_zero (remainingTimeMinutes tableStatus) < 60
                 then (Inl NotEnoughTimeForWalkIn, s)
                 else if write_fails then (Inl StoreError, s)
                 else
                   (let reservation =
                          \<lparr>r_id = new_id,
                           r_restaurant_id = restaurantId,
                           r_user_id = userId,
                           r_table_id = tid,
                           r_date = today,
                           r_time = currentTime,
                           r_end_time = Some endTime,
                           r_guest_count = g,
                           r_occasion = None,
                           r_special_request = None,
                           r_status = ''seated'',
                           r_deposit_paid = False,
                           r_source = Some ''walk_in'',
                           r_internal_notes = Some (walk_in_notes name phone)\<rparr>;
                        s1 = s\<lparr>reservations := reservations s @ [reservation]\<rparr>;
                        s2 = set_table_status tid ''occupied'' s1
                    in (Inr reservation, s2))))"

section \<open>Waitlist: POST /api/waitlist/join\<close>

record join_body =
  jb_restaurantId :: "string option"
  jb_name :: "string option"
  jb_phone :: "string option"
  jb_email :: "string option"
  jb_partySize :: "int option"
  jb_preferredZone :: "string option"
  jb_notes :: "string option"

text \<open>
  Modelled from the spec: the insert of Join sets no \<open>status\<close>, and the column default of
  \<open>waitlist.status\<close> is in the database schema, which is not among the sources; the
  spec's waitlist entries start as \<open>waiting\<close>.
\<close>

definition waitlist_default_status :: string where
  "waitlist_default_status = ''waiting''"

text \<open>The rows of the duplicate query and of the position count.\<close>

definition active_entries_of_phone :: "string \<Rightarrow> string \<Rightarrow> store \<Rightarrow> waitlist_entry list" where
  "active_entries_of_phone restaurantId phone s =
     filter (\<lambda>w. w_restaurant_id w = restaurantId \<and> w_phone w = phone
                 \<and> w_status w \<in> set [''waiting'', ''notified'', ''confirmed''])
            (waitlist s)"

definition waiting_count :: "string \<Rightarrow> store \<Rightarrow> int" where
  "waiting_count restaurantId s =
     int (length (filter (\<lambda>w. w_restaurant_id w = restaurantId
                               \<and> w_status w \<in> set [''waiting'', ''notified''])
                         (waitlist s)))"

text \<open>
  Arguments: the caller if the request is authenticated, the body, the id the database
  gives the new row, whether the database rejects the insert, and the store.
\<close>

definition join ::
  "user option \<Rightarrow> join_body \<Rightarrow> string \<Rightarrow> bool \<Rightarrow> store \<Rightarrow> (error + waitlist_entry) \<times> store" where
  "join caller b new_id write_fails s =
     (if \<not> truthy_str (jb_restaurantId b) \<or> \<not> truthy_str (jb_name b)
         \<or> \<not> truthy_str (jb_phone b) \<or> \<not> truthy_num (jb_partySize b)
      then (Inl WaitlistFieldsRequired, s)
      else
        (case (jb_restaurantId b, jb_name b, jb_phone b, jb_partySize b) of
           (Some restaurantId, Some name, Some phone, Some partySize) \<Rightarrow>
             (case single (filter (\<lambda>x. rs_id x = restaurantId) (restaurants s)) of
                None \<Rightarrow> (Inl RestaurantNotFound, s)
              | Some restaurant \<Rightarrow>
                  (case single (active_entries_of_phone restaurantId phone s) of
                     Some existing \<Rightarrow> (Inl AlreadyInWaitlist, s)
                   | None \<Rightarrow>
                       (let position = waiting_count restaurantId s + 1
                        in if write_fails then (Inl StoreError, s)
                           else
                             (let entry =
                                    \<lparr>w_id = new_id,
                                     w_restaurant_id = restaurantId,
                                     w_user_id = text_or_null (map_option u_id caller),
                                     w_name = name,
                                     w_phone = phone,
                                     w_email = text_or_null (jb_email b),
                                     w_party_size = partySize,
                                     w_preferred_zone = text_or_null (jb_preferredZone b),
                                     w_notes = text_or_null (jb_notes b),
                                     w_status = waitlist_default_status,
                                     w_position = Some position,
                                     w_estimated_wait = position * 15\<rparr>
                              in (Inr entry, s\<lparr>waitlist := waitlist s @ [entry]\<rparr>)))))
         | _ \<Rightarrow> (Inl WaitlistFieldsRequired, s)))"

section \<open>The label derivation of the specification\<close>

text \<open>
  The derivation the specification words for the Logical Status Engine, to compare
  \<open>table_report\<close> with: the label from the table's physical status, from whether some
  reservation of the table is current, and from the minutes until the earliest
  future pending or confirmed one. What makes a reservation current is a parameter.
\<close>

fun earliest :: "reservation list \<Rightarrow> reservation option" where
  "earliest [] = None"
| "earliest (r # rs) =
     (case earliest rs of
        None \<Rightarrow> Some r
      | Some m \<Rightarrow> if r_time r \<le> r_time m then Some r else Some m)"

definition derive_label ::
  "(reservation \<Rightarrow> bool) \<Rightarrow> table_row \<Rightarrow> reservation list \<Rightarrow> string \<Rightarrow> TableLogicalStatus" where
  "derive_label current tbl rsv now =
     (let mine = filter (\<lambda>r. r_table_id r = tb_id tbl) rsv
      in if tb_status tbl \<in> set [''blocked'', ''disabled''] then OUT_OF_SERVICE
         else if list_ex current mine then OCCUPIED
         else
           (case earliest (filter (\<lambda>r. now < r_time r
                                        \<and> r_status r \<in> set [''pending'', ''confirmed'']) mine) of
              None \<Rightarrow> FREE
            | Some n \<Rightarrow>
                if js_le (calculateRemainingMinutes now (r_time n)) 30 then RESERVED
                else if js_le (calculateRemainingMinutes now (r_time n)) 90 then NEXT_RESERVATION
                else FREE))"

text \<open>
  Modelled from the spec: a reservation is current when its status is arrived or
  seated, or its status is confirmed and time \<le> now < end-time, where an absent
  end-time defaults to time plus the configured service duration. The sources have no
  configured service duration; it is the parameter \<open>duration\<close>, in minutes, and
  \<open>now < time + duration\<close> is read on the minutes of the day.
\<close>

definition minutes_of_day :: "string \<Rightarrow> jsnum" where
  "minutes_of_day t = to_minutes (map Number_js (js_split (CHR '':'') t))"

definition spec_current :: "int \<Rightarrow> string \<Rightarrow> reservation \<Rightarrow> bool" where
  "spec_current duration now r =
     (r_status r \<in> set [''arrived'', ''seated'']
      \<or> (r_status r = ''confirmed'' \<and> r_time r \<le> now
          \<and> (if truthy_str (r_end_time r)
              then (case r_end_time r of None \<Rightarrow> False | Some e \<Rightarrow> now < e)
              else js_lt (js_sub (minutes_of_day now) (minutes_of_day (r_time r))) duration)))"

section \<open>Example data\<close>

text \<open>
  A restaurant \<open>R1\<close> with one table \<open>T1\<close> for four, a customer \<open>U1\<close>, and bookings of
  that customer on 2024-06-01; the concrete inputs of the evaluations below.
\<close>

definition guest :: user where
  "guest = \<lparr>u_id = ''U1'', u_role = ''customer'', u_restaurantId = None\<rparr>"

definition table4 :: table_row where
  "table4 = \<lparr>tb_id = ''T1'', tb_restaurant_id = ''R1'', tb_number = 1, tb_capacity = 4,
             tb_is_active = True, tb_status = ''available''\<rparr>"

definition booking :: "string \<Rightarrow> string \<Rightarrow> string option \<Rightarrow> string \<Rightarrow> reservation" where
  "booking rid t e st =
     \<lparr>r_id = rid, r_restaurant_id = ''R1'', r_user_id = ''U1'', r_table_id = ''T1'',
      r_date = ''2024-06-01'', r_time = t, r_end_time = e, r_guest_count = 2,
      r_occasion = None, r_special_request = Some ''Window seat'', r_status = st,
      r_deposit_paid = False, r_source = None, r_internal_notes = None\<rparr>"

definition floor_with :: "reservation list \<Rightarrow> store" where
  "floor_with rs =
     \<lparr>reservations = rs, tables = [table4],
      restaurants = [\<lparr>rs_id = ''R1'', rs_holidays = []\<rparr>], waitlist = []\<rparr>"

definition request :: "string \<Rightarrow> int \<Rightarrow> create_body" where
  "request t g =
     \<lparr>cb_restaurantId = Some ''R1'', cb_tableId = Some ''T1'', cb_date = Some ''2024-06-01'',
      cb_time = Some t, cb_guestCount = Some g, cb_occasion = None,
      cb_specialRequest = None, cb_depositPaid = False\<rparr>"

definition queued :: "string \<Rightarrow> string \<Rightarrow> string \<Rightarrow> int \<Rightarrow> waitlist_entry" where
  "queued wid phone st pos =
     \<lparr>w_id = wid, w_restaurant_id = ''R1'', w_user_id = None, w_name = ''Ana'',
      w_phone = phone, w_email = None, w_party_size = 2, w_preferred_zone = None,
      w_notes = None, w_status = st, w_position = Some pos, w_estimated_wait = pos * 15\<rparr>"

definition queue_with :: "waitlist_entry list \<Rightarrow> store" where
  "queue_with ws = (floor_with [])\<lparr>waitlist := ws\<rparr>"

definition join_request :: "string \<Rightarrow> join_body" where
  "join_request phone =
     \<lparr>jb_restaurantId = Some ''R1'', jb_name = Some ''Ana'', jb_phone = Some phone,
      jb_email = None, jb_partySize = Some 2, jb_preferredZone = None, jb_notes = None\<rparr>"

section \<open>Evaluation helpers\<close>

lemmas example_defs = guest_def table4_def booking_def floor_with_def request_def
  queued_def queue_with_def join_request_def

lemma cancelled_note_nonempty: "cancelled_note reason \<noteq> []"
  by (simp add: cancelled_note_def)

lemma cancelled_special_request_changes:
  "Some (cancelled_special_request old reason) \<noteq> old"
proof (cases old)
  case None
  then show ?thesis by simp
next
  case (Some sr)
  have "length (sr @ [CHR 0x0A, CHR 0x0A] @ cancelled_note reason) \<noteq> length sr"
    by simp
  then have "sr @ [CHR 0x0A, CHR 0x0A] @ cancelled_note reason \<noteq> sr"
    by metis
  with Some show ?thesis
    using cancelled_note_nonempty [of reason]
    by (auto simp: cancelled_special_request_def)
qed

section \<open>The status endpoint\<close>

text \<open>
  Claim C10. Every request to PATCH /reservations/:id/status whose body status is
  \<open>seated\<close> is answered 400 with the invalid-status error, whoever calls, whatever the
  id and the store hold; the store afterwards is the store before, so neither the
  reservation nor any table changes.
\<close>

theorem C10_seated_rejected:
  "patch_status u rid (Some ''seated'') write_fails s = (Inl InvalidStatus, s)
   \<and> http_status InvalidStatus = 400"
  by (simp add: patch_status_def validStatuses_def)

theorem C10_seated_rejected_witness:
  "patch_status guest ''X1'' (Some ''seated'') False
       (floor_with [booking ''X1'' ''19:00:00'' None ''arrived''])
     = (Inl InvalidStatus, floor_with [booking ''X1'' ''19:00:00'' None ''arrived''])
   \<and> http_status InvalidStatus = 400"
  using C10_seated_rejected [of guest "''X1''" False
          "floor_with [booking ''X1'' ''19:00:00'' None ''arrived'']"]
  by simp

text \<open>
  Claim C2 (terminal finality) does not hold of the status endpoint. When the
  reservation is found, the caller is not a restaurant admin and the database accepts
  the update, PATCH /reservations/:id/status with any accepted status succeeds on a
  reservation that is completed, cancelled or no_show, and writes the new status: the
  handler never reads the current status. The cancel route does refuse such a
  reservation, as the evaluation and the lemma after the theorem show.
\<close>

theorem C2_patch_status_ignores_terminal:
  assumes "single (filter (\<lambda>r. r_id r = rid) (reservations s)) = Some reservation"
    and "r_status reservation \<in> set [''completed'', ''cancelled'', ''no_show'']"
    and "status \<in> set validStatuses"
    and "u_role u \<noteq> ''restaurant_admin''"
  shows "fst (patch_status u rid (Some status) False s) = Inr (reservation\<lparr>r_status := status\<rparr>)
     \<and> reservations (snd (patch_status u rid (Some status) False s))
         = map (\<lambda>r. if r_id r = rid then r\<lparr>r_status := status\<rparr> else r) (reservations s)"
proof -
  have ne: "status \<noteq> []"
    using assms(3) by (auto simp: validStatuses_def)
  show ?thesis
    using assms ne
    by (simp add: patch_status_def Let_def update_reservation_def set_table_status_def
          split: option.splits)
qed

theorem C2_completed_reopened:
  "fst (patch_status guest ''X1'' (Some ''pending'') False
          (floor_with [booking ''X1'' ''19:00:00'' None ''completed'']))
     = Inr (booking ''X1'' ''19:00:00'' None ''pending'')
   \<and> reservations (snd (patch_status guest ''X1'' (Some ''pending'') False
          (floor_with [booking ''X1'' ''19:00:00'' None ''completed''])))
     = [booking ''X1'' ''19:00:00'' None ''pending'']
   \<and> cancel guest ''X1'' None False (floor_with [booking ''X1'' ''19:00:00'' None ''completed''])
     = (Inl CannotBeCancelled, floor_with [booking ''X1'' ''19:00:00'' None ''completed''])"
  using C2_patch_status_ignores_terminal [of "''X1''"
          "floor_with [booking ''X1'' ''19:00:00'' None ''completed'']"
          "booking ''X1'' ''19:00:00'' None ''completed''" "''pending''" guest]
  by (simp add: example_defs single_def validStatuses_def cancel_def)

text \<open>
  The cancel route, by contrast, refuses every terminal reservation of a caller it
  authorises, and leaves the store as it was.
\<close>

lemma cancel_refuses_terminal:
  assumes "single (filter (\<lambda>r. r_id r = rid) (reservations s)) = Some reservation"
    and "r_user_id reservation = u_id u \<or> u_role u = ''super_admin''"
    and "u_role u \<noteq> ''restaurant_admin''"
    and "r_status reservation \<in> set [''completed'', ''cancelled'', ''no_show'']"
  shows "cancel u rid reason write_fails s = (Inl CannotBeCancelled, s)"
  using assms by (auto simp: cancel_def)

text \<open>
  Claim C4 (confirming sets the table to \<open>reserved\<close>) does not hold of the status
  endpoint. When the reservation is found, the caller is not a restaurant admin and
  the database accepts the update, the transition to \<open>confirmed\<close> succeeds and every
  table row with the reservation's table id gets the physical status \<open>occupied\<close>.
\<close>

theorem C4_confirm_marks_table_occupied:
  assumes "single (filter (\<lambda>r. r_id r = rid) (reservations s)) = Some reservation"
    and "u_role u \<noteq> ''restaurant_admin''"
  shows "fst (patch_status u rid (Some ''confirmed'') False s)
           = Inr (reservation\<lparr>r_status := ''confirmed''\<rparr>)
     \<and> tables (snd (patch_status u rid (Some ''confirmed'') False s))
           = map (\<lambda>t. if tb_id t = r_table_id reservation then t\<lparr>tb_status := ''occupied''\<rparr> else t)
                 (tables s)"
  using assms
  by (simp add: patch_status_def validStatuses_def tableStatus_for_def Let_def
        update_reservation_def set_table_status_def)

theorem C4_pending_confirmed_occupied:
  "fst (patch_status guest ''X1'' (Some ''confirmed'') False
          (floor_with [booking ''X1'' ''19:00:00'' None ''pending'']))
     = Inr (booking ''X1'' ''19:00:00'' None ''confirmed'')
   \<and> tables (snd (patch_status guest ''X1'' (Some ''confirmed'') False
          (floor_with [booking ''X1'' ''19:00:00'' None ''pending''])))
     = [table4\<lparr>tb_status := ''occupied''\<rparr>]"
  using C4_confirm_marks_table_occupied [of "''X1''"
          "floor_with [booking ''X1'' ''19:00:00'' None ''pending'']"
          "booking ''X1'' ''19:00:00'' None ''pending''" guest]
  by (simp add: example_defs single_def)

section \<open>Cancellation\<close>

text \<open>
  Claim C8 (the cancellation reason is kept out of the guest-visible special request)
  does not hold of the cancel route. When the reservation is found, belongs to the
  caller and is not terminal, and the database accepts the update, Cancel succeeds and
  the special-request field of the reservation becomes the old text followed by a
  blank line and \<open>[Cancelled: reason]\<close> (the note alone when there was no text); the
  new value always differs from the old one.
\<close>

theorem C8_cancel_rewrites_special_request:
  assumes "single (filter (\<lambda>r. r_id r = rid) (reservations s)) = Some reservation"
    and "r_user_id reservation = u_id u"
    and "u_role u \<noteq> ''restaurant_admin''"
    and "r_status reservation \<notin> set [''completed'', ''cancelled'', ''no_show'']"
  shows "fst (cancel u rid reason False s) = Inr ()
     \<and> reservations (snd (cancel u rid reason False s))
          = map (\<lambda>r. if r_id r = rid
                      then r\<lparr>r_status := ''cancelled'',
                             r_special_request :=
                               Some (cancelled_special_request (r_special_request reservation) reason)\<rparr>
                      else r)
                (reservations s)
     \<and> Some (cancelled_special_request (r_special_request reservation) reason)
          \<noteq> r_special_request reservation"
  using assms cancelled_special_request_changes [of "r_special_request reservation" reason]
  by (simp add: cancel_def Let_def update_reservation_def set_table_status_def)

theorem C8_window_seat_overwritten:
  "fst (cancel guest ''X1'' (Some ''sick'') False
          (floor_with [booking ''X1'' ''19:00:00'' None ''pending''])) = Inr ()
   \<and> map r_special_request (reservations (snd (cancel guest ''X1'' (Some ''sick'') False
          (floor_with [booking ''X1'' ''19:00:00'' None ''pending'']))))
     = [Some (''Window seat'' @ [CHR 0x0A, CHR 0x0A] @ ''[Cancelled: sick]'')]
   \<and> r_special_request (booking ''X1'' ''19:00:00'' None ''pending'') = Some ''Window seat''"
  using C8_cancel_rewrites_special_request [of "''X1''"
          "floor_with [booking ''X1'' ''19:00:00'' None ''pending'']"
          "booking ''X1'' ''19:00:00'' None ''pending''" guest "Some ''sick''"]
  by (simp add: example_defs single_def cancelled_special_request_def cancelled_note_def)

section \<open>Capacity\<close>

text \<open>
  Claim C3 (a party larger than the table is always refused) does not hold of Create.
  Create never answers with the over-capacity error; when the required fields are
  present and the conflict query finds no row, it inserts the reservation with the
  requested guest count, whatever the capacity of the table. The reschedule route does
  compare the guest count with the capacity, as the evaluation and the lemma after the
  theorem show.
\<close>

theorem C3_create_ignores_capacity:
  assumes "cb_restaurantId b = Some restaurantId" and "restaurantId \<noteq> []"
    and "cb_tableId b = Some tid" and "tid \<noteq> []"
    and "cb_date b = Some d" and "d \<noteq> []"
    and "cb_time b = Some t" and "t \<noteq> []"
    and "cb_guestCount b = Some g" and "g \<noteq> 0"
    and "slot_rows tid d t s = []"
  shows "fst (create u b new_id write_fails s) \<noteq> Inl (OverCapacity c)
     \<and> (\<exists>r. fst (create u b new_id False s) = Inr r \<and> r_guest_count r = g
             \<and> reservations (snd (create u b new_id False s)) = reservations s @ [r])"
  using assms
  by (simp add: create_def truthy_str_def truthy_num_def single_def Let_def set_table_status_def)

theorem C3_ten_guests_at_table_for_four:
  "fst (create guest (request ''19:00:00'' 10) ''N1'' False (floor_with []))
     = Inr ((booking ''N1'' ''19:00:00'' None ''pending'')
              \<lparr>r_guest_count := 10, r_special_request := None\<rparr>)
   \<and> map tb_capacity (tables (floor_with [])) = [4]
   \<and> fst (reschedule guest ''X1'' \<lparr>rb_date = None, rb_time = None, rb_guestCount = Some 10\<rparr> False
            (floor_with [booking ''X1'' ''19:00:00'' None ''pending''])) = Inl (OverCapacity 4)"
  using C3_create_ignores_capacity [of "request ''19:00:00'' 10" "''R1''" "''T1''" "''2024-06-01''"
          "''19:00:00''" 10 "floor_with []" guest "''N1''" False 4]
  by (simp add: example_defs single_def slot_rows_def create_def truthy_str_def truthy_num_def
        text_or_null_def set_table_status_def reschedule_def num_or_def str_or_def
        exceeds_capacity_def slot_rows_excluding_def Let_def)

text \<open>
  The reschedule route, by contrast, answers 400 and changes nothing whenever the
  request carries a guest count above the capacity of the reservation's table, before
  it looks at the slot.
\<close>

lemma reschedule_refuses_over_capacity:
  assumes "single (filter (\<lambda>r. r_id r = rid) (reservations s)) = Some reservation"
    and "r_user_id reservation = u_id u \<or> u_role u = ''super_admin''"
    and "rb_guestCount b = Some g" and "g \<noteq> 0"
    and "single (filter (\<lambda>t. tb_id t = r_table_id reservation) (tables s)) = Some tbl"
    and "tb_capacity tbl < g"
  shows "\<exists>e. reschedule u rid b write_fails s = (Inl e, s) \<and> http_status e = 400"
  using assms
  by (auto simp: reschedule_def truthy_num_def num_or_def exceeds_capacity_def Let_def)

section \<open>Create and the conflict check\<close>

text \<open>
  Claim C1, as amended. For a request that carries the required fields: Create fails
  with Conflict (HTTP 409), leaving the store as it was, when exactly one reservation
  whose status is neither \<open>cancelled\<close> nor \<open>no_show\<close> exists for the exact same
  (tableId, date, time) -- a \<open>completed\<close> reservation counts like a pending,
  confirmed, arrived or seated one. For every slot whose only existing reservations
  are cancelled or no_show, Create does not fail with Conflict; when the database
  accepts the insert it appends a new reservation for that slot, with initial status
  \<open>confirmed\<close> if depositPaid is set and \<open>pending\<close> otherwise, and sets the table to
  \<open>pending\<close>.
\<close>

theorem C1_create_conflict_amended:
  assumes "cb_restaurantId b = Some restaurantId" and "restaurantId \<noteq> []"
    and "cb_tableId b = Some tid" and "tid \<noteq> []"
    and "cb_date b = Some d" and "d \<noteq> []"
    and "cb_time b = Some t" and "t \<noteq> []"
    and "cb_guestCount b = Some g" and "g \<noteq> 0"
  shows "(length (slot_rows tid d t s) = 1 \<longrightarrow>
            create u b new_id write_fails s = (Inl TableAlreadyReserved, s)
            \<and> http_status TableAlreadyReserved = 409)
     \<and> ((\<forall>r\<in>set (reservations s).
            r_table_id r = tid \<and> r_date r = d \<and> r_time r = t
              \<longrightarrow> r_status r \<in> set [''cancelled'', ''no_show'']) \<longrightarrow>
          (\<forall>e. fst (create u b new_id write_fails s) = Inl e \<longrightarrow> http_status e \<noteq> 409)
          \<and> (\<exists>r. create u b new_id False s
                     = (Inr r, set_table_status tid ''pending''
                                 (s\<lparr>reservations := reservations s @ [r]\<rparr>))
                 \<and> r_status r = (if cb_depositPaid b then ''confirmed'' else ''pending'')
                 \<and> r_table_id r = tid \<and> r_date r = d \<and> r_time r = t
                 \<and> r_guest_count r = g))"
proof (intro conjI impI)
  assume "length (slot_rows tid d t s) = 1"
  then obtain x where "slot_rows tid d t s = [x]"
    by (cases "slot_rows tid d t s") auto
  then show "create u b new_id write_fails s = (Inl TableAlreadyReserved, s)"
    using assms by (simp add: create_def truthy_str_def truthy_num_def single_def)
next
  show "http_status TableAlreadyReserved = 409" by simp
next
  assume free: "\<forall>r\<in>set (reservations s).
            r_table_id r = tid \<and> r_date r = d \<and> r_time r = t
              \<longrightarrow> r_status r \<in> set [''cancelled'', ''no_show'']"
  have empty: "slot_rows tid d t s = []"
    unfolding slot_rows_def filter_empty_conv using free by blast
  show "\<forall>e. fst (create u b new_id write_fails s) = Inl e \<longrightarrow> http_status e \<noteq> 409"
    using assms empty
    by (auto simp: create_def truthy_str_def truthy_num_def single_def Let_def)
  show "\<exists>r. create u b new_id False s
                     = (Inr r, set_table_status tid ''pending''
                                 (s\<lparr>reservations := reservations s @ [r]\<rparr>))
                 \<and> r_status r = (if cb_depositPaid b then ''confirmed'' else ''pending'')
                 \<and> r_table_id r = tid \<and> r_date r = d \<and> r_time r = t
                 \<and> r_guest_count r = g"
    using assms empty
    by (simp add: create_def truthy_str_def truthy_num_def single_def Let_def)
qed

theorem C1_create_conflict_witness:
  "create guest (request ''19:00:00'' 2) ''N1'' False
       (floor_with [booking ''X1'' ''19:00:00'' None ''confirmed''])
     = (Inl TableAlreadyReserved, floor_with [booking ''X1'' ''19:00:00'' None ''confirmed''])
   \<and> (case fst (create guest (request ''19:30:00'' 2) ''N1'' False
                  (floor_with [booking ''X1'' ''19:00:00'' None ''confirmed''])) of
         Inl e \<Rightarrow> None
       | Inr r \<Rightarrow> Some (r_status r, r_time r)) = Some (''pending'', ''19:30:00'')"
proof -
  let ?s = "floor_with [booking ''X1'' ''19:00:00'' None ''confirmed'']"
  have taken: "length (slot_rows ''T1'' ''2024-06-01'' ''19:00:00'' ?s) = 1"
    by (simp add: example_defs slot_rows_def)
  have free: "\<forall>r\<in>set (reservations ?s).
      r_table_id r = ''T1'' \<and> r_date r = ''2024-06-01'' \<and> r_time r = ''19:30:00''
        \<longrightarrow> r_status r \<in> set [''cancelled'', ''no_show'']"
    by (simp add: example_defs)
  have first: "create guest (request ''19:00:00'' 2) ''N1'' False ?s = (Inl TableAlreadyReserved, ?s)"
    using C1_create_conflict_amended [of "request ''19:00:00'' 2" "''R1''" "''T1''"
            "''2024-06-01''" "''19:00:00''" 2 ?s guest "''N1''" False] taken
    by (simp add: request_def)
  have "\<exists>r. fst (create guest (request ''19:30:00'' 2) ''N1'' False ?s) = Inr r
           \<and> r_status r = ''pending'' \<and> r_time r = ''19:30:00''"
    using C1_create_conflict_amended [of "request ''19:30:00'' 2" "''R1''" "''T1''"
            "''2024-06-01''" "''19:30:00''" 2 ?s guest "''N1''" False] free
    by (auto simp: request_def)
  then have second: "(case fst (create guest (request ''19:30:00'' 2) ''N1'' False ?s) of
         Inl e \<Rightarrow> None
       | Inr r \<Rightarrow> Some (r_status r, r_time r)) = Some (''pending'', ''19:30:00'')"
    by auto
  from first second show ?thesis by simp
qed

text \<open>
  The claim as first stated fails where the only reservation of the slot is completed:
  Create answers 409.
\<close>

theorem C1_completed_blocks_slot:
  "create guest (request ''19:00:00'' 2) ''N1'' False
       (floor_with [booking ''X1'' ''19:00:00'' None ''completed''])
     = (Inl TableAlreadyReserved, floor_with [booking ''X1'' ''19:00:00'' None ''completed''])
   \<and> http_status TableAlreadyReserved = 409
   \<and> map r_status (reservations (floor_with [booking ''X1'' ''19:00:00'' None ''completed'']))
       = [''completed'']"
  by (simp add: example_defs create_def truthy_str_def truthy_num_def single_def slot_rows_def)

section \<open>Available tables\<close>

lemma not_in_map_filter:
  "(x \<notin> set (map g (filter P rs))) = (\<not> (\<exists>r\<in>set rs. P r \<and> g r = x))"
  by (induction rs) auto

text \<open>
  Claim C7, as amended. For a request that carries date, time and guests,
  FindAvailableTables returns exactly the active tables of the restaurant with
  capacity \<ge> partySize for which the restaurant has no reservation at exactly
  (date, time) whose status is neither \<open>cancelled\<close> nor \<open>no_show\<close> -- a \<open>completed\<close>
  reservation keeps its table out of the result. It never fails with NotFound: a
  restaurant with zero matching tables gets the empty list as a successful result,
  like an empty result from filtering out reserved tables.
\<close>

theorem C7_available_tables_amended:
  assumes "d \<noteq> []" and "t \<noteq> []"
  shows "available_tables rid (Some d) (Some t) (Some g) s
           = Inr (filter (\<lambda>tb. tb_restaurant_id tb = rid \<and> tb_is_active tb \<and> g \<le> tb_capacity tb
                               \<and> \<not> (\<exists>r\<in>set (reservations s).
                                       r_restaurant_id r = rid \<and> r_table_id r = tb_id tb
                                       \<and> r_date r = d \<and> r_time r = t
                                       \<and> r_status r \<notin> set [''cancelled'', ''no_show'']))
                        (tables s))
     \<and> (\<forall>e. available_tables rid date time guests s = Inl e \<longrightarrow> http_status e \<noteq> 404)"
proof
  let ?P = "\<lambda>r. r_restaurant_id r = rid \<and> r_date r = d \<and> r_time r = t
                  \<and> r_status r \<notin> set [''cancelled'', ''no_show'']"
  have "available_tables rid (Some d) (Some t) (Some g) s
          = Inr (filter (\<lambda>tb. tb_id tb \<notin> set (map r_table_id (filter ?P (reservations s))))
                   (filter (\<lambda>tb. tb_restaurant_id tb = rid \<and> g \<le> tb_capacity tb \<and> tb_is_active tb)
                      (tables s)))"
    using assms by (simp add: available_tables_def Let_def)
  also have "\<dots> = Inr (filter (\<lambda>tb. tb_restaurant_id tb = rid \<and> tb_is_active tb \<and> g \<le> tb_capacity tb
                               \<and> \<not> (\<exists>r\<in>set (reservations s).
                                       r_restaurant_id r = rid \<and> r_table_id r = tb_id tb
                                       \<and> r_date r = d \<and> r_time r = t
                                       \<and> r_status r \<notin> set [''cancelled'', ''no_show'']))
                        (tables s))"
    unfolding filter_filter not_in_map_filter
    by (intro arg_cong [where f = Inr] filter_cong refl) blast
  finally show "available_tables rid (Some d) (Some t) (Some g) s
           = Inr (filter (\<lambda>tb. tb_restaurant_id tb = rid \<and> tb_is_active tb \<and> g \<le> tb_capacity tb
                               \<and> \<not> (\<exists>r\<in>set (reservations s).
                                       r_restaurant_id r = rid \<and> r_table_id r = tb_id tb
                                       \<and> r_date r = d \<and> r_time r = t
                                       \<and> r_status r \<notin> set [''cancelled'', ''no_show'']))
                        (tables s))" .
next
  show "\<forall>e. available_tables rid date time guests s = Inl e \<longrightarrow> http_status e \<noteq> 404"
    by (auto simp: available_tables_def Let_def split: option.splits if_splits)
qed

theorem C7_available_tables_witness:
  "available_tables ''R1'' (Some ''2024-06-01'') (Some ''19:30:00'') (Some 2)
       (floor_with [booking ''X1'' ''19:00:00'' None ''confirmed'']) = Inr [table4]
   \<and> available_tables ''R1'' (Some ''2024-06-01'') (Some ''19:00:00'') (Some 2)
       (floor_with [booking ''X1'' ''19:00:00'' None ''confirmed'']) = Inr []"
proof -
  let ?s = "floor_with [booking ''X1'' ''19:00:00'' None ''confirmed'']"
  have a: "available_tables ''R1'' (Some ''2024-06-01'') (Some ''19:30:00'') (Some 2) ?s
             = Inr [table4]"
    using C7_available_tables_amended [of "''2024-06-01''" "''19:30:00''" "''R1''" 2 ?s]
    by (simp add: example_defs)
  have b: "available_tables ''R1'' (Some ''2024-06-01'') (Some ''19:00:00'') (Some 2) ?s = Inr []"
    using C7_available_tables_amended [of "''2024-06-01''" "''19:00:00''" "''R1''" 2 ?s]
    by (simp add: example_defs)
  from a b show ?thesis by simp
qed

text \<open>
  The claim as first stated fails for a restaurant without tables, which gets an empty
  success and no NotFound, and where the only reservation of the slot is completed:
  the table is left out although it is free without that reservation.
\<close>

theorem C7_no_tables_is_success:
  "available_tables ''R9'' (Some ''2024-06-01'') (Some ''19:00:00'') (Some 2) (floor_with [])
     = Inr []
   \<and> available_tables ''R1'' (Some ''2024-06-01'') (Some ''19:00:00'') (Some 2)
       (floor_with [booking ''X1'' ''19:00:00'' None ''completed'']) = Inr []
   \<and> available_tables ''R1'' (Some ''2024-06-01'') (Some ''19:00:00'') (Some 2) (floor_with [])
     = Inr [table4]"
  by (simp add: example_defs available_tables_def)

section \<open>Joining the waitlist\<close>

text \<open>
  Claim C9, as amended. For a request that carries the required fields and names an
  existing restaurant: Join fails with the duplicate error, sent with HTTP 400, and
  creates no entry when the same phone has exactly one waiting, notified or confirmed
  entry for that restaurant; when the phone has no such entry and the database accepts
  the insert, it appends an entry with position equal to the count of that
  restaurant's current waiting/notified entries plus one and estimated wait equal to
  position \<times> 15.
\<close>

theorem C9_join_amended:
  assumes "jb_restaurantId b = Some restaurantId" and "restaurantId \<noteq> []"
    and "jb_name b = Some name" and "name \<noteq> []"
    and "jb_phone b = Some phone" and "phone \<noteq> []"
    and "jb_partySize b = Some n" and "n \<noteq> 0"
    and "single (filter (\<lambda>x. rs_id x = restaurantId) (restaurants s)) = Some restaurant"
  shows "(length (active_entries_of_phone restaurantId phone s) = 1 \<longrightarrow>
            join caller b new_id write_fails s = (Inl AlreadyInWaitlist, s)
            \<and> http_status AlreadyInWaitlist = 400)
     \<and> ((\<forall>w\<in>set (waitlist s).
            w_restaurant_id w = restaurantId \<and> w_phone w = phone
              \<longrightarrow> w_status w \<notin> set [''waiting'', ''notified'', ''confirmed'']) \<longrightarrow>
          (\<exists>e. join caller b new_id False s = (Inr e, s\<lparr>waitlist := waitlist s @ [e]\<rparr>)
               \<and> w_restaurant_id e = restaurantId \<and> w_phone e = phone
               \<and> w_position e = Some (waiting_count restaurantId s + 1)
               \<and> w_estimated_wait e = (waiting_count restaurantId s + 1) * 15))"
proof (intro conjI impI)
  assume "length (active_entries_of_phone restaurantId phone s) = 1"
  then obtain x where "active_entries_of_phone restaurantId phone s = [x]"
    by (cases "active_entries_of_phone restaurantId phone s") auto
  then show "join caller b new_id write_fails s = (Inl AlreadyInWaitlist, s)"
    using assms by (simp add: join_def truthy_str_def truthy_num_def single_def)
next
  show "http_status AlreadyInWaitlist = 400" by simp
next
  assume free: "\<forall>w\<in>set (waitlist s).
            w_restaurant_id w = restaurantId \<and> w_phone w = phone
              \<longrightarrow> w_status w \<notin> set [''waiting'', ''notified'', ''confirmed'']"
  have empty: "active_entries_of_phone restaurantId phone s = []"
    unfolding active_entries_of_phone_def filter_empty_conv using free by blast
  have none: "single ([] :: waitlist_entry list) = None"
    by (simp add: single_def)
  show "\<exists>e. join caller b new_id False s = (Inr e, s\<lparr>waitlist := waitlist s @ [e]\<rparr>)
               \<and> w_restaurant_id e = restaurantId \<and> w_phone e = phone
               \<and> w_position e = Some (waiting_count restaurantId s + 1)
               \<and> w_estimated_wait e = (waiting_count restaurantId s + 1) * 15"
    using assms empty none
    by (simp add: join_def truthy_str_def truthy_num_def Let_def)
qed

theorem C9_join_witness:
  "join None (join_request ''555-0100'') ''W2'' False (queue_with [queued ''W1'' ''555-0100'' ''waiting'' 1])
     = (Inl AlreadyInWaitlist, queue_with [queued ''W1'' ''555-0100'' ''waiting'' 1])
   \<and> (case fst (join None (join_request ''555-0199'') ''W2'' False
                  (queue_with [queued ''W1'' ''555-0100'' ''waiting'' 1])) of
         Inl e \<Rightarrow> None
       | Inr e \<Rightarrow> Some (w_position e, w_estimated_wait e)) = Some (Some 2, 30)"
proof -
  let ?s = "queue_with [queued ''W1'' ''555-0100'' ''waiting'' 1]"
  have r: "single (filter (\<lambda>x. rs_id x = ''R1'') (restaurants ?s))
             = Some \<lparr>rs_id = ''R1'', rs_holidays = []\<rparr>"
    by (simp add: example_defs single_def)
  have dup: "length (active_entries_of_phone ''R1'' ''555-0100'' ?s) = 1"
    by (simp add: example_defs active_entries_of_phone_def)
  have free: "\<forall>w\<in>set (waitlist ?s).
      w_restaurant_id w = ''R1'' \<and> w_phone w = ''555-0199''
        \<longrightarrow> w_status w \<notin> set [''waiting'', ''notified'', ''confirmed'']"
    by (simp add: example_defs)
  have cnt: "waiting_count ''R1'' ?s = 1"
    by (simp add: example_defs waiting_count_def)
  have first: "join None (join_request ''555-0100'') ''W2'' False ?s = (Inl AlreadyInWaitlist, ?s)"
    using C9_join_amended [of "join_request ''555-0100''" "''R1''" "''Ana''" "''555-0100''" 2 ?s
            "\<lparr>rs_id = ''R1'', rs_holidays = []\<rparr>" None "''W2''" False] r dup
    by (simp add: join_request_def)
  have "\<exists>e. fst (join None (join_request ''555-0199'') ''W2'' False ?s) = Inr e
           \<and> w_position e = Some 2 \<and> w_estimated_wait e = 30"
    using C9_join_amended [of "join_request ''555-0199''" "''R1''" "''Ana''" "''555-0199''" 2 ?s
            "\<lparr>rs_id = ''R1'', rs_holidays = []\<rparr>" None "''W2''" False] r free cnt
    by (auto simp: join_request_def)
  then have second: "(case fst (join None (join_request ''555-0199'') ''W2'' False ?s) of
         Inl e \<Rightarrow> None
       | Inr e \<Rightarrow> Some (w_position e, w_estimated_wait e)) = Some (Some 2, 30)"
    by auto
  from first second show ?thesis by simp
qed

text \<open>
  The claim as first stated fails on the status code: the duplicate of the spec's
  scenario (phone 555-0100 already waiting) is answered 400, not 409.
\<close>

theorem C9_duplicate_answers_400:
  "join None (join_request ''555-0100'') ''W2'' False (queue_with [queued ''W1'' ''555-0100'' ''waiting'' 1])
     = (Inl AlreadyInWaitlist, queue_with [queued ''W1'' ''555-0100'' ''waiting'' 1])
   \<and> http_status AlreadyInWaitlist = 400"
  by (simp add: example_defs join_def truthy_str_def truthy_num_def single_def
        active_entries_of_phone_def)

section \<open>The logical status of a table\<close>

text \<open>
  \<open>find\<close> on the reservations sorted by time returns a reservation of least time
  among those that satisfy the predicate; \<open>earliest\<close> returns one of least time.
\<close>

lemma earliest_None [simp]: "earliest xs = None \<longleftrightarrow> xs = []"
  by (induction xs) (auto split: option.splits)

lemma earliest_Some:
  "earliest xs = Some m \<Longrightarrow> m \<in> set xs \<and> (\<forall>x\<in>set xs. r_time m \<le> r_time x)"
proof (induction xs arbitrary: m)
  case Nil
  then show ?case by simp
next
  case (Cons a xs)
  show ?case
  proof (cases "earliest xs")
    case None
    with Cons.prems show ?thesis by simp
  next
    case (Some m')
    with Cons.IH have m': "m' \<in> set xs" "\<forall>x\<in>set xs. r_time m' \<le> r_time x"
      by auto
    show ?thesis
    proof (cases "r_time a \<le> r_time m'")
      case True
      with Some Cons.prems have "m = a" by simp
      with True m' show ?thesis by (auto intro: order_trans)
    next
      case False
      with Some Cons.prems have "m = m'" by simp
      with False m' show ?thesis by auto
    qed
  qed
qed

lemma find_sort_key_Some:
  fixes f :: "'a \<Rightarrow> 'k::linorder"
  assumes "find P (sort_key f xs) = Some c"
  shows "c \<in> set xs \<and> P c \<and> (\<forall>x\<in>set xs. P x \<longrightarrow> f c \<le> f x)"
proof -
  let ?ys = "sort_key f xs"
  from assms obtain i where i: "i < length ?ys" "P (?ys ! i)" "c = ?ys ! i"
    and before: "\<forall>j<i. \<not> P (?ys ! j)"
    unfolding find_Some_iff by blast
  have c_in: "c \<in> set xs"
    using i(1,3) nth_mem [of i ?ys] by simp
  have "f c \<le> f x" if x: "x \<in> set xs" "P x" for x
  proof -
    from x(1) have "x \<in> set ?ys" by simp
    then obtain k where k: "k < length ?ys" "?ys ! k = x"
      by (metis in_set_conv_nth)
    with before x(2) have "i \<le> k"
      by (metis not_le_imp_less)
    have "sorted (map f ?ys)" by simp
    then have "map f ?ys ! i \<le> map f ?ys ! k"
      using \<open>i \<le> k\<close> k(1) by (intro sorted_nth_mono) simp_all
    with i k show ?thesis by simp
  qed
  with c_in i show ?thesis by blast
qed

lemma find_sort_key_None:
  fixes f :: "'a \<Rightarrow> 'k::linorder"
  shows "find P (sort_key f xs) = None \<longleftrightarrow> \<not> (\<exists>x\<in>set xs. P x)"
  by (auto simp: find_None_iff)


lemma logicalStatus_table_report:
  "logicalStatus (table_report tbl rsv now) =
     (if tb_status tbl = ''blocked'' \<or> tb_status tbl = ''disabled'' then OUT_OF_SERVICE
      else
        (case find (is_current now) (sort_key r_time (filter (\<lambda>r. r_table_id r = tb_id tbl) rsv)) of
           Some c \<Rightarrow> OCCUPIED
         | None \<Rightarrow>
             (case find (is_next now) (sort_key r_time (filter (\<lambda>r. r_table_id r = tb_id tbl) rsv)) of
                Some n \<Rightarrow>
                  if js_le (calculateRemainingMinutes now (r_time n)) 30 then RESERVED
                  else if js_le (calculateRemainingMinutes now (r_time n)) 90 then NEXT_RESERVATION
                  else FREE
              | None \<Rightarrow> FREE)))"
  by (simp add: table_report_def Let_def split: option.splits)

lemma remainingTimeMinutes_table_report:
  "remainingTimeMinutes (table_report tbl rsv now) =
     (if tb_status tbl = ''blocked'' \<or> tb_status tbl = ''disabled'' then None
      else
        (case find (is_current now) (sort_key r_time (filter (\<lambda>r. r_table_id r = tb_id tbl) rsv)) of
           Some c \<Rightarrow> map_option (calculateRemainingMinutes now) (text_or_null (r_end_time c))
         | None \<Rightarrow>
             (case find (is_next now) (sort_key r_time (filter (\<lambda>r. r_table_id r = tb_id tbl) rsv)) of
                Some n \<Rightarrow> Some (calculateRemainingMinutes now (r_time n))
              | None \<Rightarrow> None)))"
  by (simp add: table_report_def Let_def text_or_null_def truthy_str_def split: option.splits)

lemma currentReservation_table_report:
  "currentReservation (table_report tbl rsv now) =
     find (is_current now) (sort_key r_time (filter (\<lambda>r. r_table_id r = tb_id tbl) rsv))"
  by (simp add: table_report_def Let_def split: prod.splits)

lemma nextReservation_table_report:
  "nextReservation (table_report tbl rsv now) =
     find (is_next now) (sort_key r_time (filter (\<lambda>r. r_table_id r = tb_id tbl) rsv))"
  by (simp add: table_report_def Let_def split: prod.splits)

lemma label_is_derived:
  "logicalStatus (table_report tbl rsv now) = derive_label (is_current now) tbl rsv now"
proof -
  let ?mine = "filter (\<lambda>r. r_table_id r = tb_id tbl) rsv"
  let ?fut = "filter (\<lambda>r. now < r_time r \<and> r_status r \<in> set [''pending'', ''confirmed'']) ?mine"
  show ?thesis
  proof (cases "tb_status tbl = ''blocked'' \<or> tb_status tbl = ''disabled''")
    case True
    then show ?thesis
      by (auto simp: logicalStatus_table_report derive_label_def)
  next
    case avail: False
    show ?thesis
    proof (cases "find (is_current now) (sort_key r_time ?mine)")
      case (Some c)
      then have "c \<in> set ?mine \<and> is_current now c"
        using find_sort_key_Some [of "is_current now" r_time ?mine c] by blast
      then have "list_ex (is_current now) ?mine"
        unfolding list_ex_iff by blast
      with avail Some show ?thesis
        by (simp add: logicalStatus_table_report derive_label_def)
    next
      case no_current: None
      then have nc: "\<not> list_ex (is_current now) ?mine"
        unfolding list_ex_iff find_sort_key_None by blast
      show ?thesis
      proof (cases "find (is_next now) (sort_key r_time ?mine)")
        case None
        then have "\<forall>x\<in>set ?mine. \<not> is_next now x"
          unfolding find_sort_key_None by blast
        then have "?fut = []"
          unfolding filter_empty_conv is_next_def by auto
        with avail no_current nc None show ?thesis
          by (simp add: logicalStatus_table_report derive_label_def)
      next
        case (Some n)
        then have n: "n \<in> set ?mine" "is_next now n"
          "\<forall>x\<in>set ?mine. is_next now x \<longrightarrow> r_time n \<le> r_time x"
          using find_sort_key_Some [of "is_next now" r_time ?mine n] by blast+
        then have n_fut: "n \<in> set ?fut"
          by (simp add: is_next_def)
        then have "?fut \<noteq> []"
          by (metis empty_iff list.set(1))
        then obtain m where m: "earliest ?fut = Some m"
          using earliest_None [of ?fut] by (cases "earliest ?fut") auto
        then have m_in: "m \<in> set ?fut" and m_min: "\<forall>x\<in>set ?fut. r_time m \<le> r_time x"
          using earliest_Some [of ?fut m] by blast+
        from m_in have "m \<in> set ?mine" "is_next now m"
          by (simp_all add: is_next_def)
        with n(3) have "r_time n \<le> r_time m" by blast
        moreover from m_min n_fut have "r_time m \<le> r_time n" by blast
        ultimately have same: "r_time m = r_time n" by simp
        from avail no_current nc Some m same show ?thesis
          by (simp add: logicalStatus_table_report derive_label_def)
      qed
    qed
  qed
qed


lemma calculateRemainingMinutes_wrap:
  assumes "minutes_of_day a = Num x" and "minutes_of_day b = Num y"
  shows "calculateRemainingMinutes a b = Num (if y - x < 0 then y - x + 1440 else y - x)"
  using assms by (simp add: calculateRemainingMinutes_def minutes_of_day_def Let_def)

lemmas clock_defs = calculateRemainingMinutes_def minutes_of_day_def to_minutes_def part_def
  Number_js_def is_digit_def

text \<open>
  Claim C5, as amended. For every active table of the restaurant the derived label is
  the derivation of the specification with this notion of a current reservation:
  OUT_OF_SERVICE when the table's physical status is blocked or disabled; otherwise
  OCCUPIED when a current reservation exists, where a reservation is current iff its
  status is arrived or seated, or its status is confirmed with time \<le> now and either
  no end-time or now < end-time (an absent end-time is not replaced by time plus a
  service duration: the reservation stays current); otherwise, when the earliest
  future pending/confirmed reservation is \<le> 30 minutes away the label is RESERVED,
  when \<le> 90 minutes away NEXT_RESERVATION, and otherwise FREE. When the label is
  OCCUPIED the reported current reservation is a current one of least time, and
  remaining-minutes is the minutes from now to its end-time when it has one and is
  absent otherwise. Minute differences wrap past midnight by adding 1440 to negative
  deltas.
\<close>

theorem C5_status_report_amended:
  "map logicalStatus (getRestaurantStatusReport rid today now s)
     = map (\<lambda>tbl. derive_label (is_current now) tbl
                    (filter (\<lambda>r. r_restaurant_id r = rid \<and> r_date r = today
                                 \<and> r_status r \<notin> set [''cancelled'', ''no_show''])
                            (reservations s)) now)
           (sort_key tb_number
              (filter (\<lambda>t. tb_restaurant_id t = rid \<and> tb_is_active t) (tables s)))
   \<and> logicalStatus (table_report tbl rsv now) = derive_label (is_current now) tbl rsv now
   \<and> (logicalStatus (table_report tbl rsv now) = OCCUPIED \<longrightarrow>
        (\<exists>c\<in>set rsv. r_table_id c = tb_id tbl \<and> is_current now c
            \<and> (\<forall>c'\<in>set rsv. r_table_id c' = tb_id tbl \<and> is_current now c'
                   \<longrightarrow> r_time c \<le> r_time c')
            \<and> currentReservation (table_report tbl rsv now) = Some c
            \<and> remainingTimeMinutes (table_report tbl rsv now)
                = map_option (calculateRemainingMinutes now) (text_or_null (r_end_time c))))
   \<and> (minutes_of_day a = Num x \<and> minutes_of_day b = Num y \<longrightarrow>
        calculateRemainingMinutes a b = Num (if y - x < 0 then y - x + 1440 else y - x))"
proof (intro conjI impI)
  show "map logicalStatus (getRestaurantStatusReport rid today now s)
     = map (\<lambda>tbl. derive_label (is_current now) tbl
                    (filter (\<lambda>r. r_restaurant_id r = rid \<and> r_date r = today
                                 \<and> r_status r \<notin> set [''cancelled'', ''no_show''])
                            (reservations s)) now)
           (sort_key tb_number
              (filter (\<lambda>t. tb_restaurant_id t = rid \<and> tb_is_active t) (tables s)))"
    by (simp add: getRestaurantStatusReport_def Let_def label_is_derived o_def)
next
  show "logicalStatus (table_report tbl rsv now) = derive_label (is_current now) tbl rsv now"
    by (rule label_is_derived)
next
  assume occ: "logicalStatus (table_report tbl rsv now) = OCCUPIED"
  let ?mine = "filter (\<lambda>r. r_table_id r = tb_id tbl) rsv"
  from occ have avail: "\<not> (tb_status tbl = ''blocked'' \<or> tb_status tbl = ''disabled'')"
    by (auto simp: logicalStatus_table_report)
  from occ avail obtain c where c: "find (is_current now) (sort_key r_time ?mine) = Some c"
    by (cases "find (is_current now) (sort_key r_time ?mine)")
       (auto simp: logicalStatus_table_report split: option.splits if_splits)
  then have "c \<in> set ?mine" "is_current now c"
    "\<forall>x\<in>set ?mine. is_current now x \<longrightarrow> r_time c \<le> r_time x"
    using find_sort_key_Some [of "is_current now" r_time ?mine c] by blast+
  moreover from c have "currentReservation (table_report tbl rsv now) = Some c"
    by (simp add: currentReservation_table_report)
  moreover from c avail have "remainingTimeMinutes (table_report tbl rsv now)
      = map_option (calculateRemainingMinutes now) (text_or_null (r_end_time c))"
    by (simp add: remainingTimeMinutes_table_report)
  ultimately show "\<exists>c\<in>set rsv. r_table_id c = tb_id tbl \<and> is_current now c
            \<and> (\<forall>c'\<in>set rsv. r_table_id c' = tb_id tbl \<and> is_current now c'
                   \<longrightarrow> r_time c \<le> r_time c')
            \<and> currentReservation (table_report tbl rsv now) = Some c
            \<and> remainingTimeMinutes (table_report tbl rsv now)
                = map_option (calculateRemainingMinutes now) (text_or_null (r_end_time c))"
    by (intro bexI [of _ c]) auto
next
  assume "minutes_of_day a = Num x \<and> minutes_of_day b = Num y"
  then show "calculateRemainingMinutes a b = Num (if y - x < 0 then y - x + 1440 else y - x)"
    using calculateRemainingMinutes_wrap [of a x b y] by blast
qed

theorem C5_status_report_witness:
  "logicalStatus (table_report table4 [booking ''X1'' ''20:00:00'' (Some ''21:30:00'') ''arrived'']
                    ''20:45:00'') = OCCUPIED
   \<and> remainingTimeMinutes (table_report table4
          [booking ''X1'' ''20:00:00'' (Some ''21:30:00'') ''arrived''] ''20:45:00'') = Some (Num 45)
   \<and> logicalStatus (table_report table4 [booking ''X2'' ''21:00:00'' None ''confirmed'']
                      ''20:20:00'') = NEXT_RESERVATION
   \<and> logicalStatus (table_report table4 [booking ''X2'' ''21:00:00'' None ''confirmed'']
                      ''20:40:00'') = RESERVED
   \<and> calculateRemainingMinutes ''23:30:00'' ''00:15:00'' = Num 45"
proof -
  let ?r = "booking ''X1'' ''20:00:00'' (Some ''21:30:00'') ''arrived''"
  let ?n = "booking ''X2'' ''21:00:00'' None ''confirmed''"
  note amended = C5_status_report_amended [of "''R1''" "''2024-06-01''" _ "floor_with []"]
  have occ: "logicalStatus (table_report table4 [?r] ''20:45:00'') = OCCUPIED"
    using amended [of "''20:45:00''" table4 "[?r]"]
    by (simp add: derive_label_def is_current_def example_defs)
  have rem: "remainingTimeMinutes (table_report table4 [?r] ''20:45:00'') = Some (Num 45)"
    using amended [of "''20:45:00''" table4 "[?r]"] occ
    by (simp add: text_or_null_def truthy_str_def clock_defs example_defs)
  have nxt: "logicalStatus (table_report table4 [?n] ''20:20:00'') = NEXT_RESERVATION"
    using amended [of "''20:20:00''" table4 "[?n]"]
    by (simp add: derive_label_def is_current_def clock_defs example_defs)
  have rsv: "logicalStatus (table_report table4 [?n] ''20:40:00'') = RESERVED"
    using amended [of "''20:40:00''" table4 "[?n]"]
    by (simp add: derive_label_def is_current_def clock_defs example_defs)
  have wrap: "calculateRemainingMinutes ''23:30:00'' ''00:15:00'' = Num 45"
    using amended [of "''20:40:00''" table4 "[?n]" "''23:30:00''" 1410 "''00:15:00''" 15]
    by (simp add: clock_defs)
  from occ rem nxt rsv wrap show ?thesis by simp
qed

text \<open>
  The claim as first stated fails for a confirmed reservation without end-time: with a
  service duration of 90 minutes the reservation of 12:00 is over by 20:00 and the
  specification derives FREE, while the report says OCCUPIED, with no remaining
  minutes.
\<close>

theorem C5_absent_end_time_stays_current:
  "logicalStatus (table_report table4 [booking ''X1'' ''12:00:00'' None ''confirmed''] ''20:00:00'')
     = OCCUPIED
   \<and> derive_label (spec_current 90 ''20:00:00'') table4
        [booking ''X1'' ''12:00:00'' None ''confirmed''] ''20:00:00'' = FREE
   \<and> remainingTimeMinutes (table_report table4 [booking ''X1'' ''12:00:00'' None ''confirmed'']
                              ''20:00:00'') = None"
  by (simp add: table_report_def derive_label_def is_current_def is_next_def spec_current_def
        truthy_str_def clock_defs example_defs)

section \<open>Walk-in assignment\<close>

lemma next_reservation_label_facts:
  assumes "logicalStatus (table_report tbl rsv now) = NEXT_RESERVATION"
  shows "nextReservation (table_report tbl rsv now) \<noteq> None
     \<and> (\<exists>m. remainingTimeMinutes (table_report tbl rsv now) = Some (Num m) \<and> 30 < m \<and> m \<le> 90)"
proof -
  let ?mine = "sort_key r_time (filter (\<lambda>r. r_table_id r = tb_id tbl) rsv)"
  from assms have avail: "\<not> (tb_status tbl = ''blocked'' \<or> tb_status tbl = ''disabled'')"
    by (auto simp: logicalStatus_table_report)
  from assms avail have nc: "find (is_current now) ?mine = None"
    by (cases "find (is_current now) ?mine") (auto simp: logicalStatus_table_report)
  from assms avail nc obtain n where n: "find (is_next now) ?mine = Some n"
    by (cases "find (is_next now) ?mine") (auto simp: logicalStatus_table_report)
  from assms avail nc n
  have "\<not> js_le (calculateRemainingMinutes now (r_time n)) 30"
    and "js_le (calculateRemainingMinutes now (r_time n)) 90"
    by (auto simp: logicalStatus_table_report split: if_splits)
  then obtain m where "calculateRemainingMinutes now (r_time n) = Num m" "30 < m" "m \<le> 90"
    by (cases "calculateRemainingMinutes now (r_time n)") auto
  with avail nc n show ?thesis
    by (simp add: nextReservation_table_report remainingTimeMinutes_table_report)
qed

lemma free_label_facts:
  assumes "logicalStatus (table_report tbl rsv now) = FREE"
    and "nextReservation (table_report tbl rsv now) \<noteq> None"
    and "remainingTimeMinutes (table_report tbl rsv now) \<noteq> Some NaN"
  shows "\<exists>m. remainingTimeMinutes (table_report tbl rsv now) = Some (Num m) \<and> 90 < m"
proof -
  let ?mine = "sort_key r_time (filter (\<lambda>r. r_table_id r = tb_id tbl) rsv)"
  from assms(1) have avail: "\<not> (tb_status tbl = ''blocked'' \<or> tb_status tbl = ''disabled'')"
    by (auto simp: logicalStatus_table_report)
  from assms(1) avail have nc: "find (is_current now) ?mine = None"
    by (cases "find (is_current now) ?mine") (auto simp: logicalStatus_table_report)
  from assms(2) obtain n where n: "find (is_next now) ?mine = Some n"
    by (auto simp: nextReservation_table_report)
  from assms(1) avail nc n
  have "\<not> js_le (calculateRemainingMinutes now (r_time n)) 90"
    by (auto simp: logicalStatus_table_report split: if_splits)
  moreover from assms(3) avail nc n have "calculateRemainingMinutes now (r_time n) \<noteq> NaN"
    by (simp add: remainingTimeMinutes_table_report)
  ultimately obtain m where "calculateRemainingMinutes now (r_time n) = Num m" "90 < m"
    by (cases "calculateRemainingMinutes now (r_time n)") auto
  with avail nc n show ?thesis
    by (simp add: remainingTimeMinutes_table_report)
qed

lemma report_entry_is_table_report:
  assumes "find P (getRestaurantStatusReport restaurantId today now s) = Some ts"
  shows "\<exists>tbl rsv. ts = table_report tbl rsv now"
proof -
  from assms have "ts \<in> set (getRestaurantStatusReport restaurantId today now s)"
    by (auto simp: find_Some_iff)
  then show ?thesis
    by (auto simp: getRestaurantStatusReport_def Let_def)
qed

lemma walk_in_found:
  assumes "g \<noteq> 0"
    and "find (\<lambda>t. tableId t = tid) (getRestaurantStatusReport restaurantId today now s) = Some ts"
  shows "walk_in restaurantId userId tid (Some g) name phone today now endTime new_id write_fails s =
     (if logicalStatus ts \<noteq> FREE \<and> logicalStatus ts \<noteq> NEXT_RESERVATION
      then (Inl NotAvailableForWalkIn, s)
      else if nextReservation ts \<noteq> None \<and> or_zero (remainingTimeMinutes ts) < 60
      then (Inl NotEnoughTimeForWalkIn, s)
      else if write_fails then (Inl StoreError, s)
      else
        (Inr \<lparr>r_id = new_id, r_restaurant_id = restaurantId, r_user_id = userId,
              r_table_id = tid, r_date = today, r_time = now, r_end_time = Some endTime,
              r_guest_count = g, r_occasion = None, r_special_request = None,
              r_status = ''seated'', r_deposit_paid = False, r_source = Some ''walk_in'',
              r_internal_notes = Some (walk_in_notes name phone)\<rparr>,
         set_table_status tid ''occupied''
           (s\<lparr>reservations := reservations s @
                [\<lparr>r_id = new_id, r_restaurant_id = restaurantId, r_user_id = userId,
                  r_table_id = tid, r_date = today, r_time = now, r_end_time = Some endTime,
                  r_guest_count = g, r_occasion = None, r_special_request = None,
                  r_status = ''seated'', r_deposit_paid = False, r_source = Some ''walk_in'',
                  r_internal_notes = Some (walk_in_notes name phone)\<rparr>]\<rparr>)))"
  using assms by (simp add: walk_in_def Let_def)


lemma walk_in_effects:
  assumes "g \<noteq> 0"
    and "find (\<lambda>t. tableId t = tid) (getRestaurantStatusReport restaurantId today now s) = Some ts"
    and "walk_in restaurantId userId tid (Some g) name phone today now endTime new_id write_fails s
           = (Inr r, s')"
  shows "r_status r = ''seated'' \<and> r_source r = Some ''walk_in'' \<and> r_date r = today
     \<and> r_time r = now \<and> r_table_id r = tid \<and> r_guest_count r = g
     \<and> reservations s' = reservations s @ [r]
     \<and> tables s' = map (\<lambda>t. if tb_id t = tid then t\<lparr>tb_status := ''occupied''\<rparr> else t) (tables s)"
  using assms(3) unfolding walk_in_found [OF assms(1,2)]
  by (auto simp: set_table_status_def split: if_splits)

lemma tableId_table_report: "tableId (table_report tbl rsv now) = tb_id tbl"
  by (simp add: table_report_def Let_def split: prod.splits)

text \<open>
  Claim C6. For a request that carries a guest count and names a table of the
  restaurant's status report: AssignWalkIn succeeds only when the table's derived
  label is FREE, or is NEXT_RESERVATION with at least 60 minutes until the next
  reservation; in every other case it fails with Conflict (HTTP 409) and the store is
  unchanged; in the permitted cases it does succeed when the database accepts the
  insert (and the minutes to the next reservation are a number); on success it
  appends a reservation with status seated and source walk_in for today at the
  current time, and sets the table's physical status to occupied.
\<close>

theorem C6_walk_in:
  assumes "g \<noteq> 0"
    and "find (\<lambda>t. tableId t = tid) (getRestaurantStatusReport restaurantId today now s) = Some ts"
  shows "((\<exists>r s'. walk_in restaurantId userId tid (Some g) name phone today now endTime new_id
                    write_fails s = (Inr r, s'))
            \<longrightarrow> (logicalStatus ts = FREE
                 \<or> (logicalStatus ts = NEXT_RESERVATION
                     \<and> (\<exists>m. remainingTimeMinutes ts = Some (Num m) \<and> 60 \<le> m))))
     \<and> (\<not> (logicalStatus ts = FREE
             \<or> (logicalStatus ts = NEXT_RESERVATION
                 \<and> (\<exists>m. remainingTimeMinutes ts = Some (Num m) \<and> 60 \<le> m)))
            \<longrightarrow> (\<exists>e. walk_in restaurantId userId tid (Some g) name phone today now endTime new_id
                        write_fails s = (Inl e, s) \<and> http_status e = 409))
     \<and> ((logicalStatus ts = FREE
            \<or> (logicalStatus ts = NEXT_RESERVATION
                \<and> (\<exists>m. remainingTimeMinutes ts = Some (Num m) \<and> 60 \<le> m)))
          \<and> remainingTimeMinutes ts \<noteq> Some NaN \<and> \<not> write_fails
            \<longrightarrow> (\<exists>r s'. walk_in restaurantId userId tid (Some g) name phone today now endTime
                          new_id write_fails s = (Inr r, s')))
     \<and> (\<forall>r s'. walk_in restaurantId userId tid (Some g) name phone today now endTime new_id
                   write_fails s = (Inr r, s')
            \<longrightarrow> r_status r = ''seated'' \<and> r_source r = Some ''walk_in'' \<and> r_date r = today
                \<and> r_time r = now \<and> r_table_id r = tid \<and> r_guest_count r = g
                \<and> reservations s' = reservations s @ [r]
                \<and> tables s' = map (\<lambda>t. if tb_id t = tid then t\<lparr>tb_status := ''occupied''\<rparr> else t)
                                   (tables s))"
proof -
  note W = walk_in_found [OF assms, of userId name phone endTime new_id write_fails]
  obtain tbl rsv where ts: "ts = table_report tbl rsv now"
    using report_entry_is_table_report [OF assms(2)] by blast
  have effects: "\<forall>r s'. walk_in restaurantId userId tid (Some g) name phone today now endTime new_id
                   write_fails s = (Inr r, s')
            \<longrightarrow> r_status r = ''seated'' \<and> r_source r = Some ''walk_in'' \<and> r_date r = today
                \<and> r_time r = now \<and> r_table_id r = tid \<and> r_guest_count r = g
                \<and> reservations s' = reservations s @ [r]
                \<and> tables s' = map (\<lambda>t. if tb_id t = tid then t\<lparr>tb_status := ''occupied''\<rparr> else t)
                                   (tables s)"
    using walk_in_effects [OF assms] by blast
  consider (free) "logicalStatus ts = FREE" | (nxt) "logicalStatus ts = NEXT_RESERVATION"
    | (other) "logicalStatus ts \<noteq> FREE" "logicalStatus ts \<noteq> NEXT_RESERVATION"
    by blast
  then have rest: "((\<exists>r s'. walk_in restaurantId userId tid (Some g) name phone today now endTime new_id
                    write_fails s = (Inr r, s'))
            \<longrightarrow> (logicalStatus ts = FREE
                 \<or> (logicalStatus ts = NEXT_RESERVATION
                     \<and> (\<exists>m. remainingTimeMinutes ts = Some (Num m) \<and> 60 \<le> m))))
     \<and> (\<not> (logicalStatus ts = FREE
             \<or> (logicalStatus ts = NEXT_RESERVATION
                 \<and> (\<exists>m. remainingTimeMinutes ts = Some (Num m) \<and> 60 \<le> m)))
            \<longrightarrow> (\<exists>e. walk_in restaurantId userId tid (Some g) name phone today now endTime new_id
                        write_fails s = (Inl e, s) \<and> http_status e = 409))
     \<and> ((logicalStatus ts = FREE
            \<or> (logicalStatus ts = NEXT_RESERVATION
                \<and> (\<exists>m. remainingTimeMinutes ts = Some (Num m) \<and> 60 \<le> m)))
          \<and> remainingTimeMinutes ts \<noteq> Some NaN \<and> \<not> write_fails
            \<longrightarrow> (\<exists>r s'. walk_in restaurantId userId tid (Some g) name phone today now endTime
                          new_id write_fails s = (Inr r, s')))"
  proof cases
    case free
    have "\<exists>r s'. walk_in restaurantId userId tid (Some g) name phone today now endTime
                          new_id write_fails s = (Inr r, s')"
      if ok: "remainingTimeMinutes ts \<noteq> Some NaN" "\<not> write_fails"
    proof (cases "nextReservation ts = None")
      case True
      with free ok show ?thesis unfolding W by simp
    next
      case False
      with free ok obtain m where "remainingTimeMinutes ts = Some (Num m)" "90 < m"
        using free_label_facts [of tbl rsv now] unfolding ts by blast
      with free ok show ?thesis unfolding W by (simp add: or_zero_def)
    qed
    with free show ?thesis by simp
  next
    case nxt
    then obtain m where m: "nextReservation ts \<noteq> None" "remainingTimeMinutes ts = Some (Num m)"
      using next_reservation_label_facts [of tbl rsv now] unfolding ts by blast
    show ?thesis
    proof (cases "60 \<le> m")
      case True
      with nxt m show ?thesis unfolding W by (simp add: or_zero_def)
    next
      case False
      with nxt m show ?thesis unfolding W by (simp add: or_zero_def)
    qed
  next
    case other
    then show ?thesis unfolding W by simp
  qed
  from rest effects show ?thesis by blast
qed

theorem C6_walk_in_witness:
  "(case walk_in ''R1'' ''A1'' ''T1'' (Some 3) None None ''2024-06-01'' ''19:50:00'' ''21:20:00''
           ''N1'' False (floor_with [booking ''X2'' ''21:00:00'' None ''confirmed'']) of
      (Inl e, s') \<Rightarrow> None
    | (Inr r, s') \<Rightarrow> Some (r_status r, r_source r, r_time r, map tb_status (tables s')))
     = Some (''seated'', Some ''walk_in'', ''19:50:00'', [''occupied''])
   \<and> (case walk_in ''R1'' ''A1'' ''T1'' (Some 3) None None ''2024-06-01'' ''20:20:00'' ''21:50:00''
           ''N1'' False (floor_with [booking ''X2'' ''21:00:00'' None ''confirmed'']) of
      (Inl e, s') \<Rightarrow> Some (http_status e, s')
    | (Inr r, s') \<Rightarrow> None)
     = Some (409, floor_with [booking ''X2'' ''21:00:00'' None ''confirmed''])"
proof -
  let ?n = "booking ''X2'' ''21:00:00'' None ''confirmed''"
  let ?S = "floor_with [?n]"
  let ?W = "\<lambda>now endTime. walk_in ''R1'' ''A1'' ''T1'' (Some 3) None None ''2024-06-01'' now endTime
                ''N1'' False ?S"
  have found: "find (\<lambda>t. tableId t = ''T1'') (getRestaurantStatusReport ''R1'' ''2024-06-01'' now ?S)
                 = Some (table_report table4 [?n] now)" for now
    by (simp add: getRestaurantStatusReport_def tableId_table_report example_defs)
  have early: "logicalStatus (table_report table4 [?n] ''19:50:00'') = NEXT_RESERVATION"
    "remainingTimeMinutes (table_report table4 [?n] ''19:50:00'') = Some (Num 70)"
    by (simp_all add: logicalStatus_table_report remainingTimeMinutes_table_report
          is_current_def is_next_def clock_defs example_defs)
  have late: "logicalStatus (table_report table4 [?n] ''20:20:00'') = NEXT_RESERVATION"
    "remainingTimeMinutes (table_report table4 [?n] ''20:20:00'') = Some (Num 40)"
    by (simp_all add: logicalStatus_table_report remainingTimeMinutes_table_report
          is_current_def is_next_def clock_defs example_defs)
  note at_early = C6_walk_in [OF _ found [of "''19:50:00''"], of 3 "''A1''" None None
                    "''21:20:00''" "''N1''" False]
  note at_late = C6_walk_in [OF _ found [of "''20:20:00''"], of 3 "''A1''" None None
                    "''21:50:00''" "''N1''" False]
  from at_early early obtain r s' where ok: "?W ''19:50:00'' ''21:20:00'' = (Inr r, s')"
    by auto
  with at_early have "r_status r = ''seated''" "r_source r = Some ''walk_in''"
    "r_time r = ''19:50:00''"
    "tables s' = map (\<lambda>t. if tb_id t = ''T1'' then t\<lparr>tb_status := ''occupied''\<rparr> else t) (tables ?S)"
    by auto
  with ok have first: "(case ?W ''19:50:00'' ''21:20:00'' of
      (Inl e, s') \<Rightarrow> None
    | (Inr r, s') \<Rightarrow> Some (r_status r, r_source r, r_time r, map tb_status (tables s')))
     = Some (''seated'', Some ''walk_in'', ''19:50:00'', [''occupied''])"
    by (simp add: example_defs)
  from at_late late obtain e where "?W ''20:20:00'' ''21:50:00'' = (Inl e, ?S)" "http_status e = 409"
    by auto
  then have second: "(case ?W ''20:20:00'' ''21:50:00'' of
      (Inl e, s') \<Rightarrow> Some (http_status e, s')
    | (Inr r, s') \<Rightarrow> None) = Some (409, ?S)"
    by simp
  from first second show ?thesis by simp
qed

end
